theory Spec2Isabelle
  imports Complex_Main
begin

section \<open>Grid Runner: grid generation and player-state progression\<close>

text \<open>
  A shallow embedding of the game logic of the Next.js page (the file that holds
  \<^verbatim>\<open>initializeGameData\<close>, \<^verbatim>\<open>NowPlayingScreen\<close> and \<^verbatim>\<open>App\<close>).

  Conventions of the embedding:
  \<^item> JavaScript numbers that only ever hold integers (grid indices, health, moves,
    \<^verbatim>\<open>timeLeft\<close>: they start from integer constants and change by integer steps) are
    \<open>int\<close>; continuous quantities (world coordinates, the values of
    \<^verbatim>\<open>Math.random()\<close>) are \<open>real\<close>, so floating-point rounding is not modelled.
  \<^item> React state variables are the fields of the record \<open>Engine\<close>; a callback is a
    function from the state it reads to the state after all its setters have been
    applied. Each callback is modelled as running atomically on the current state.
  \<^item> DOM and renderer side effects (enabling and disabling controls, pointer lock, the
    red and green screen flashes) are left out: no state variable depends on them.
  \<^item> Record fields cannot share a name, so the fields of \<^verbatim>\<open>GridCell\<close> carry the
    prefix \<open>cell_\<close>, those of the \<^verbatim>\<open>game\<close> sub-object \<open>game_\<close>, those of
    \<^verbatim>\<open>GameState\<close> \<open>gs_\<close>, and the \<^verbatim>\<open>{x, z}\<close> index pairs are \<open>ix\<close>, \<open>iz\<close>.
\<close>

subsection \<open>Type definitions\<close>

datatype GridCellType = BLANK | SPEEDER | LAVA | MUD

record CellEffect =
  healthChange :: int
  movesChange :: int
  color :: string
  name :: string

record GridCell =
  cell_id :: string
  cell_type :: GridCellType
  cell_x :: real
  cell_z :: real
  cell_gridX :: int
  cell_gridZ :: int

datatype DifficultyLevel = easy | medium | hell

record Indices =
  ix :: int
  iz :: int

subsection \<open>Constants\<close>

definition GRID_SIZE :: int where
  "GRID_SIZE = 25"

definition CELL_UNIT_SIZE :: real where
  "CELL_UNIT_SIZE = 1"

definition PLAYER_SPHERE_RADIUS :: real where
  "PLAYER_SPHERE_RADIUS = 35 / 100"

definition PLAYER_Y_POSITION :: real where
  "PLAYER_Y_POSITION = PLAYER_SPHERE_RADIUS"

definition INITIAL_PLAYER_HEALTH :: int where
  "INITIAL_PLAYER_HEALTH = 100"

definition INITIAL_PLAYER_MOVES :: int where
  "INITIAL_PLAYER_MOVES = 200"

definition GAME_DURATION_SECONDS :: int where
  "GAME_DURATION_SECONDS = 60"

fun blankRatio :: "DifficultyLevel \<Rightarrow> real" where
  "blankRatio easy = 8 / 10"
| "blankRatio medium = 55 / 100"
| "blankRatio hell = 3 / 10"

fun CELL_EFFECTS :: "GridCellType \<Rightarrow> CellEffect" where
  "CELL_EFFECTS BLANK =
     \<lparr>healthChange = 0, movesChange = -1, color = ''#DDDDDD'', name = ''Blank''\<rparr>"
| "CELL_EFFECTS SPEEDER =
     \<lparr>healthChange = -5, movesChange = 0, color = ''#ADD8E6'', name = ''Speeder''\<rparr>"
| "CELL_EFFECTS LAVA =
     \<lparr>healthChange = -50, movesChange = -10, color = ''#FF4500'', name = ''Lava''\<rparr>"
| "CELL_EFFECTS MUD =
     \<lparr>healthChange = -10, movesChange = -5, color = ''#A0522D'', name = ''Mud''\<rparr>"

subsection \<open>Numbers in template literals\<close>

text \<open>
  \<^verbatim>\<open>`${n}`\<close> for an integer-valued number: its decimal digits, with a leading minus sign
  when it is negative.
\<close>

definition digitChar :: "nat \<Rightarrow> char" where
  "digitChar d = ''0123456789'' ! d"

fun showNat :: "nat \<Rightarrow> string" where
  "showNat n = (if n < 10 then [digitChar n] else showNat (n div 10) @ [digitChar (n mod 10)])"

definition showInt :: "int \<Rightarrow> string" where
  "showInt i = (if i < 0 then CHR ''-'' # showNat (nat (- i)) else showNat (nat i))"

subsection \<open>Grid generation\<close>

text \<open>
  \<^verbatim>\<open>Math.random()\<close> is the only source of randomness. A \<open>RandomSource\<close> is the
  sequence of values that its successive calls return, and every function that draws
  takes the number \<open>n\<close> of values drawn so far and returns the new count.
  \<open>validSource\<close> is the contract of \<^verbatim>\<open>Math.random()\<close>: every value lies in \<open>[0, 1)\<close>.
\<close>

type_synonym RandomSource = "nat \<Rightarrow> real"

definition validSource :: "RandomSource \<Rightarrow> bool" where
  "validSource rnd = (\<forall>n. 0 \<le> rnd n \<and> rnd n < 1)"

text \<open>\<^verbatim>\<open>getRandomInt(min, max)\<close>, with \<open>r\<close> the value of its call of \<^verbatim>\<open>Math.random()\<close>.\<close>

definition getRandomInt :: "int \<Rightarrow> int \<Rightarrow> real \<Rightarrow> int" where
  "getRandomInt minv maxv r = \<lfloor>r * real_of_int (maxv - minv) + real_of_int minv\<rfloor>"

text \<open>
  The \<^verbatim>\<open>switch (edge)\<close> of \<^verbatim>\<open>getRandomPerimeterCell\<close>. Each of its four cases draws
  one \<^verbatim>\<open>getRandomInt(0, GRID_SIZE)\<close>, here the argument \<open>k\<close>; case 3 is also the default.
\<close>

definition edgeCell :: "int \<Rightarrow> int \<Rightarrow> Indices" where
  "edgeCell edge k =
     (if edge = 0 then \<lparr>ix = k, iz = 0\<rparr>
      else if edge = 1 then \<lparr>ix = k, iz = GRID_SIZE - 1\<rparr>
      else if edge = 2 then \<lparr>ix = 0, iz = k\<rparr>
      else \<lparr>ix = GRID_SIZE - 1, iz = k\<rparr>)"

text \<open>One pass through the body of the \<^verbatim>\<open>do\<close> loop: two draws, the edge and then the offset.\<close>

definition drawPerimeterCell :: "RandomSource \<Rightarrow> nat \<Rightarrow> Indices" where
  "drawPerimeterCell rnd n =
     (let edge = getRandomInt 0 4 (rnd n)
      in edgeCell edge (getRandomInt 0 GRID_SIZE (rnd (n + 1))))"

text \<open>
  The \<^verbatim>\<open>do ... while (gx === excludeGridX && gz === excludeGridZ)\<close> loop. Nothing bounds
  the number of its passes, so the result is an option: \<open>None\<close> is a loop that never ends.
\<close>

partial_function (option) getRandomPerimeterCell ::
  "RandomSource \<Rightarrow> nat \<Rightarrow> int \<Rightarrow> int \<Rightarrow> (Indices \<times> nat) option" where
  "getRandomPerimeterCell rnd n excludeGridX excludeGridZ =
     (let c = drawPerimeterCell rnd n
      in if ix c = excludeGridX \<and> iz c = excludeGridZ
         then getRandomPerimeterCell rnd (n + 2) excludeGridX excludeGridZ
         else Some (c, n + 2))"

definition effectCellTypes :: "GridCellType list" where
  "effectCellTypes = [SPEEDER, LAVA, MUD]"

text \<open>The body of the inner \<^verbatim>\<open>for\<close> loop: the cell at \<open>(i, j)\<close>, drawing none, one or two values.\<close>

definition genCell ::
  "real \<Rightarrow> Indices \<Rightarrow> Indices \<Rightarrow> RandomSource \<Rightarrow> int \<Rightarrow> int \<Rightarrow> nat \<Rightarrow> GridCell \<times> nat" where
  "genCell blankCellRatio st en rnd i j n =
     (let (cellType, n') =
        (if (i = ix st \<and> j = iz st) \<or> (i = ix en \<and> j = iz en) then (BLANK, n)
         else if rnd n < blankCellRatio then (BLANK, n + 1)
         else (effectCellTypes ! nat \<lfloor>rnd (n + 1) * real (length effectCellTypes)\<rfloor>, n + 2))
      in (\<lparr>cell_id = ''cell-'' @ showInt i @ ''-'' @ showInt j, cell_type = cellType,
           cell_x = (real_of_int i - real_of_int GRID_SIZE / 2 + 1 / 2) * CELL_UNIT_SIZE,
           cell_z = (real_of_int j - real_of_int GRID_SIZE / 2 + 1 / 2) * CELL_UNIT_SIZE,
           cell_gridX = i, cell_gridZ = j\<rparr>, n'))"

text \<open>The inner loop over \<open>j\<close> and the outer loop over \<open>i\<close>, both from 0 to \<open>GRID_SIZE - 1\<close>.\<close>

fun genRow ::
  "real \<Rightarrow> Indices \<Rightarrow> Indices \<Rightarrow> RandomSource \<Rightarrow> int \<Rightarrow> int list \<Rightarrow> nat
     \<Rightarrow> GridCell list \<times> nat" where
  "genRow ratio st en rnd i [] n = ([], n)"
| "genRow ratio st en rnd i (j # js) n =
     (let (c, n1) = genCell ratio st en rnd i j n;
          (cs, n2) = genRow ratio st en rnd i js n1
      in (c # cs, n2))"

fun genRows ::
  "real \<Rightarrow> Indices \<Rightarrow> Indices \<Rightarrow> RandomSource \<Rightarrow> int list \<Rightarrow> nat
     \<Rightarrow> GridCell list list \<times> nat" where
  "genRows ratio st en rnd [] n = ([], n)"
| "genRows ratio st en rnd (i # is) n =
     (let (row, n1) = genRow ratio st en rnd i [0..GRID_SIZE - 1] n;
          (rows, n2) = genRows ratio st en rnd is n1
      in (row # rows, n2))"

record GameData =
  grid :: "GridCell list list"
  startCellIndices :: Indices
  endCellIndices :: Indices

definition initializeGameData :: "DifficultyLevel \<Rightarrow> RandomSource \<Rightarrow> GameData option" where
  "initializeGameData difficulty rnd =
     (case getRandomPerimeterCell rnd 0 (- 1) (- 1) of
        None \<Rightarrow> None
      | Some (st, n1) \<Rightarrow>
          (case getRandomPerimeterCell rnd n1 (ix st) (iz st) of
             None \<Rightarrow> None
           | Some (en, n2) \<Rightarrow>
               Some \<lparr>grid = fst (genRows (blankRatio difficulty) st en rnd [0..GRID_SIZE - 1] n2),
                     startCellIndices = st, endCellIndices = en\<rparr>))"

text \<open>
  \<^verbatim>\<open>gridData[i]?.[j]\<close>: the cell, or \<open>None\<close> for \<^verbatim>\<open>undefined\<close> when the row or the cell
  is not there.
\<close>

definition gridLookup :: "GridCell list list \<Rightarrow> int \<Rightarrow> int \<Rightarrow> GridCell option" where
  "gridLookup g i j =
     (if 0 \<le> i \<and> nat i < length g
      then (let row = g ! nat i
            in if 0 \<le> j \<and> nat j < length row then Some (row ! nat j) else None)
      else None)"

definition onPerimeter :: "Indices \<Rightarrow> bool" where
  "onPerimeter c = (ix c = 0 \<or> ix c = GRID_SIZE - 1 \<or> iz c = 0 \<or> iz c = GRID_SIZE - 1)"

definition inGrid :: "Indices \<Rightarrow> bool" where
  "inGrid c = (0 \<le> ix c \<and> ix c < GRID_SIZE \<and> 0 \<le> iz c \<and> iz c < GRID_SIZE)"

definition isCorner :: "Indices \<Rightarrow> bool" where
  "isCorner c = ((ix c = 0 \<or> ix c = GRID_SIZE - 1) \<and> (iz c = 0 \<or> iz c = GRID_SIZE - 1))"

text \<open>
  The distribution of one pass of the sampler under a uniform source. With \<open>r\<close> uniform on
  \<open>[0, 1)\<close>, \<^verbatim>\<open>getRandomInt(0, m)\<close> is \<open>k\<close> exactly on the interval \<open>[k/m, (k+1)/m)\<close>
  (lemma \<open>getRandomInt_interval\<close> below), so the edge is uniform on \<open>0..3\<close>, the offset is
  uniform on \<open>0..GRID_SIZE - 1\<close> and the two are independent: each of the
  \<open>4 * GRID_SIZE\<close> pairs has the same probability, and the probability of a cell is the
  share of the pairs that \<open>edgeCell\<close> sends to it.
\<close>

definition edgeOffsetPairs :: "(int \<times> int) list" where
  "edgeOffsetPairs = List.product [0..3] [0..GRID_SIZE - 1]"

definition perimeterProbability :: "Indices \<Rightarrow> real" where
  "perimeterProbability c =
     real (length (filter (\<lambda>(edge, k). edgeCell edge k = c) edgeOffsetPairs))
       / real (length edgeOffsetPairs)"

subsection \<open>The saved game state\<close>

text \<open>The interface \<^verbatim>\<open>GameState\<close> with its two sub-objects.\<close>

record Player =
  gridX :: int
  gridZ :: int
  worldX :: real
  worldZ :: real
  health :: int
  moves :: int

record Game =
  game_timeLeft :: int
  game_isFpsView :: bool
  game_currentCellType :: "GridCellType option"
  game_startCell :: Indices
  game_endCell :: Indices
  game_isOver :: bool
  game_hasWon :: bool
  game_timerGameOver :: bool

record GameState =
  gs_playerName :: string
  gs_difficulty :: DifficultyLevel
  gs_player :: Player
  gs_game :: Game
  gs_gridData :: "GridCell list list"
  gs_visitedCellTrail :: "string list"

subsection \<open>The state of the playing screen\<close>

text \<open>
  The state variables of \<^verbatim>\<open>NowPlayingScreen\<close> that the game logic reads or writes,
  with its prop \<^verbatim>\<open>playerName\<close>. \<open>playerPosX\<close> and \<open>playerPosZ\<close> are the two fields of
  \<^verbatim>\<open>debugInfo\<close> that saving reads. A \<^verbatim>\<open>Set<string>\<close> iterates in insertion order, so
  \<open>visitedCellTrail\<close> is the list of its elements in that order, without duplicates.
\<close>

record Engine =
  playerName :: string
  difficulty :: DifficultyLevel
  gameId :: nat
  gridData :: "GridCell list list"
  playerStartPos :: "real \<times> real \<times> real"
  startMarkerPos :: "real \<times> real"
  endMarkerPos :: "real \<times> real"
  currentGridIndices :: Indices
  actualStartCellIndices :: Indices
  endCell :: Indices
  visitedCellTrail :: "string list"
  playerHealth :: int
  playerMoves :: int
  timeLeft :: int
  gameOver :: bool
  timerGameOver :: bool
  hasWon :: bool
  lastMessage :: string
  isFpsView :: bool
  playerPosX :: real
  playerPosZ :: real

text \<open>The initial values of the \<^verbatim>\<open>useState\<close> calls.\<close>

definition initialEngine :: "string \<Rightarrow> Engine" where
  "initialEngine pn =
     \<lparr>playerName = pn, difficulty = medium, gameId = 0, gridData = [],
      playerStartPos = (0, PLAYER_Y_POSITION, 0), startMarkerPos = (0, 0), endMarkerPos = (0, 0),
      currentGridIndices = \<lparr>ix = 0, iz = 0\<rparr>, actualStartCellIndices = \<lparr>ix = 0, iz = 0\<rparr>,
      endCell = \<lparr>ix = 0, iz = 0\<rparr>, visitedCellTrail = [],
      playerHealth = INITIAL_PLAYER_HEALTH, playerMoves = INITIAL_PLAYER_MOVES,
      timeLeft = GAME_DURATION_SECONDS, gameOver = False, timerGameOver = False, hasWon = False,
      lastMessage = ''Game Started!'', isFpsView = False, playerPosX = 0, playerPosZ = 0\<rparr>"

text \<open>\<^verbatim>\<open>new Set(trail).add(key)\<close> and \<^verbatim>\<open>new Set(array)\<close>.\<close>

definition setAdd :: "string list \<Rightarrow> string \<Rightarrow> string list" where
  "setAdd trail key = (if key \<in> set trail then trail else trail @ [key])"

definition newSet :: "string list \<Rightarrow> string list" where
  "newSet array = foldl setAdd [] array"

text \<open>
  The expression \<^verbatim>\<open>(i - GRID_SIZE / 2 + 0.5) * CELL_UNIT_SIZE\<close>, which \<^verbatim>\<open>resetGame\<close>
  writes out for each marker coordinate.
\<close>

definition worldCoord :: "int \<Rightarrow> real" where
  "worldCoord i = (real_of_int i - real_of_int GRID_SIZE / 2 + 1 / 2) * CELL_UNIT_SIZE"

subsection \<open>resetGame\<close>

text \<open>The statements of \<^verbatim>\<open>resetGame\<close> after its \<^verbatim>\<open>if\<close>: they run in both branches.\<close>

definition resetFlags :: "Engine \<Rightarrow> Engine" where
  "resetFlags s = s\<lparr>gameOver := False, timerGameOver := False, hasWon := False,
                    gameId := gameId s + 1\<rparr>"

text \<open>
  \<^verbatim>\<open>resetGame(newDifficulty, stateToLoad)\<close>. Without a state to load it calls
  \<^verbatim>\<open>initializeGameData\<close>, which draws from \<open>rnd\<close> and may not return; then
  \<^verbatim>\<open>resetGame\<close> does not return either.
\<close>

definition resetGame ::
  "DifficultyLevel \<Rightarrow> GameState option \<Rightarrow> RandomSource \<Rightarrow> Engine \<Rightarrow> Engine option" where
  "resetGame newDifficulty stateToLoad rnd s =
     (case stateToLoad of
        Some st \<Rightarrow>
          Some (resetFlags (s\<lparr>
            gridData := gs_gridData st,
            playerStartPos := (worldX (gs_player st), PLAYER_Y_POSITION, worldZ (gs_player st)),
            startMarkerPos := (worldCoord (ix (game_startCell (gs_game st))),
                               worldCoord (iz (game_startCell (gs_game st)))),
            endMarkerPos := (worldCoord (ix (game_endCell (gs_game st))),
                             worldCoord (iz (game_endCell (gs_game st)))),
            currentGridIndices := \<lparr>ix = gridX (gs_player st), iz = gridZ (gs_player st)\<rparr>,
            actualStartCellIndices := game_startCell (gs_game st),
            endCell := game_endCell (gs_game st),
            visitedCellTrail := newSet (gs_visitedCellTrail st),
            playerHealth := health (gs_player st),
            playerMoves := moves (gs_player st),
            timeLeft := game_timeLeft (gs_game st),
            difficulty := gs_difficulty st,
            isFpsView := game_isFpsView (gs_game st),
            lastMessage := ''Game Loaded!''\<rparr>))
      | None \<Rightarrow>
          (case initializeGameData newDifficulty rnd of
             None \<Rightarrow> None
           | Some g \<Rightarrow>
               Some (resetFlags (s\<lparr>
                 gridData := grid g,
                 playerStartPos := (worldCoord (ix (startCellIndices g)), PLAYER_Y_POSITION,
                                    worldCoord (iz (startCellIndices g))),
                 startMarkerPos := (worldCoord (ix (startCellIndices g)),
                                    worldCoord (iz (startCellIndices g))),
                 endMarkerPos := (worldCoord (ix (endCellIndices g)),
                                  worldCoord (iz (endCellIndices g))),
                 currentGridIndices := startCellIndices g,
                 actualStartCellIndices := startCellIndices g,
                 endCell := endCellIndices g,
                 visitedCellTrail := [],
                 playerHealth := INITIAL_PLAYER_HEALTH,
                 playerMoves := INITIAL_PLAYER_MOVES,
                 timeLeft := GAME_DURATION_SECONDS,
                 isFpsView := False,
                 lastMessage := ''Game Reset! Good luck!''\<rparr>))))"

subsection \<open>The timer effect\<close>

text \<open>
  The effect that depends on \<^verbatim>\<open>timeLeft\<close> and the three flags. \<open>timerEffect\<close> is its
  body up to the \<^verbatim>\<open>setInterval\<close>, \<open>timerArmed\<close> tells whether it reaches the
  \<^verbatim>\<open>setInterval\<close>, whose callback subtracts 1 from \<^verbatim>\<open>timeLeft\<close>. The change of
  \<^verbatim>\<open>timeLeft\<close> runs the effect again, so one tick of the clock is the callback, if the
  interval is set, followed by the body of the effect.
\<close>

definition timerEffect :: "Engine \<Rightarrow> Engine" where
  "timerEffect s =
     (if gameOver s \<or> hasWon s \<or> timerGameOver s then s
      else if timeLeft s \<le> 0
        then s\<lparr>lastMessage := ''Time&apos;s Up! YOU LOSE!'', timerGameOver := True,
               gameOver := True\<rparr>
      else s)"

definition timerArmed :: "Engine \<Rightarrow> bool" where
  "timerArmed s = (\<not> (gameOver s \<or> hasWon s \<or> timerGameOver s) \<and> \<not> timeLeft s \<le> 0)"

definition onClockTick :: "Engine \<Rightarrow> Engine" where
  "onClockTick s = timerEffect (if timerArmed s then s\<lparr>timeLeft := timeLeft s - 1\<rparr> else s)"

subsection \<open>The game tick\<close>

text \<open>
  \<^verbatim>\<open>Math.round(w / CELL_UNIT_SIZE + GRID_SIZE / 2 - 0.5)\<close>. \<^verbatim>\<open>Math.round\<close> rounds a
  tie towards plus infinity, as \<open>round\<close> does: \<open>round x = \<lfloor>x + 1/2\<rfloor>\<close>.
\<close>

definition toGridIndex :: "real \<Rightarrow> int" where
  "toGridIndex w = round (w / CELL_UNIT_SIZE + real_of_int GRID_SIZE / 2 - 1 / 2)"

definition clampIndex :: "int \<Rightarrow> int" where
  "clampIndex g = max 0 (min (GRID_SIZE - 1) g)"

definition cellKey :: "Indices \<Rightarrow> string" where
  "cellKey c = showInt (ix c) @ '','' @ showInt (iz c)"

definition effectMessage :: "CellEffect \<Rightarrow> string" where
  "effectMessage effect =
     ''Player on '' @ name effect @ '': Health ''
       @ (if healthChange effect \<ge> 0 then ''+'' else [])
       @ showInt (healthChange effect) @ '', Moves ''
       @ (if movesChange effect \<ge> 0 then ''+'' else [])
       @ showInt (movesChange effect) @ ''.''"

text \<open>
  The callback of the 100 ms interval, for a player sphere at \<open>(px, pz)\<close>, in three
  parts: the trail, the new indices, and the cell that the player has entered. The
  callback reads the state \<open>s0\<close> of the render that set the interval; its setters build
  the new state.
\<close>

definition recordTrail :: "Engine \<Rightarrow> Engine" where
  "recordTrail s =
     (let cur = currentGridIndices s;
          isPrevStart = (ix cur = ix (actualStartCellIndices s)
                           \<and> iz cur = iz (actualStartCellIndices s));
          isPrevEnd = (ix cur = ix (endCell s) \<and> iz cur = iz (endCell s))
      in if gridLookup (gridData s) (ix cur) (iz cur) \<noteq> None \<and> \<not> isPrevStart \<and> \<not> isPrevEnd
         then s\<lparr>visitedCellTrail := setAdd (visitedCellTrail s) (cellKey cur)\<rparr>
         else s)"

definition enterCell :: "Engine \<Rightarrow> int \<Rightarrow> int \<Rightarrow> Engine \<Rightarrow> Engine" where
  "enterCell s0 clampedGridX clampedGridZ s =
     (case gridLookup (gridData s0) clampedGridX clampedGridZ of
        None \<Rightarrow> s
      | Some currentCellData \<Rightarrow>
          if clampedGridX = ix (endCell s0) \<and> clampedGridZ = iz (endCell s0)
          then s\<lparr>hasWon := True, gameOver := True, lastMessage := ''You Win! Congratulations!''\<rparr>
          else
            (let effect = CELL_EFFECTS (cell_type currentCellData);
                 newHealth = playerHealth s0 + healthChange effect;
                 newMoves = playerMoves s0 + movesChange effect;
                 s1 = s\<lparr>playerHealth := newHealth, playerMoves := newMoves\<rparr>;
                 (message, s2) =
                   (if newHealth \<le> 0 \<or> newMoves \<le> 0
                    then (if \<not> timerGameOver s0
                          then (if newHealth \<le> 0 then ''Game Over: Health depleted!''
                                else ''Game Over: Ran out of moves!'',
                                s1\<lparr>gameOver := True\<rparr>)
                          else (effectMessage effect, s1))
                    else (effectMessage effect, s1))
             in if \<not> gameOver s0 \<and> \<not> hasWon s0 \<and> \<not> timerGameOver s0
                then s2\<lparr>lastMessage := message\<rparr> else s2))"

definition gameTick :: "real \<Rightarrow> real \<Rightarrow> Engine \<Rightarrow> Engine" where
  "gameTick px pz s =
     (let gridX' = toGridIndex px;
          gridZ' = toGridIndex pz;
          clampedGridX = clampIndex gridX';
          clampedGridZ = clampIndex gridZ'
      in if clampedGridX \<noteq> ix (currentGridIndices s) \<or> clampedGridZ \<noteq> iz (currentGridIndices s)
         then enterCell s clampedGridX clampedGridZ
                ((recordTrail s)\<lparr>currentGridIndices := \<lparr>ix = clampedGridX, iz = clampedGridZ\<rparr>\<rparr>)
         else s)"

text \<open>
  The effect sets the interval only when neither \<^verbatim>\<open>gameOver\<close> nor \<^verbatim>\<open>hasWon\<close> holds, and
  runs again whenever a variable that the callback reads has changed.
\<close>

definition onPositionSample :: "real \<Rightarrow> real \<Rightarrow> Engine \<Rightarrow> Engine" where
  "onPositionSample px pz s = (if gameOver s \<or> hasWon s then s else gameTick px pz s)"

subsection \<open>Runs of the engine\<close>

datatype Event = PositionSample real real | ClockTick

fun step :: "Event \<Rightarrow> Engine \<Rightarrow> Engine" where
  "step (PositionSample px pz) s = onPositionSample px pz s"
| "step ClockTick s = onClockTick s"

fun run :: "Event list \<Rightarrow> Engine \<Rightarrow> Engine" where
  "run [] s = s"
| "run (e # es) s = run es (step e s)"

text \<open>
  The other handlers that change a state variable of the engine: the key C of
  \<^verbatim>\<open>handleKeyControls\<close>, \<^verbatim>\<open>handleDifficultyChange\<close>, and the position that
  \<^verbatim>\<open>updateDebugAndArrow\<close> copies from the player sphere into \<^verbatim>\<open>debugInfo\<close>.
\<close>

definition toggleView :: "Engine \<Rightarrow> Engine" where
  "toggleView s =
     (if gameOver s \<or> hasWon s then s
      else (let nextIsFpsView = \<not> isFpsView s
            in s\<lparr>isFpsView := nextIsFpsView,
                 lastMessage := (if nextIsFpsView then ''Switched to FPS View.''
                                 else ''Switched to Bird&apos;s-Eye View.'')\<rparr>))"

definition handleDifficultyChange :: "DifficultyLevel \<Rightarrow> Engine \<Rightarrow> Engine" where
  "handleDifficultyChange v s = s\<lparr>difficulty := v\<rparr>"

definition setPlayerPos :: "real \<Rightarrow> real \<Rightarrow> Engine \<Rightarrow> Engine" where
  "setPlayerPos wx wz s = s\<lparr>playerPosX := wx, playerPosZ := wz\<rparr>"

text \<open>
  The states that a session can be in: the initial state, and every state that a reset,
  a run of the timer effect, a tick of the clock, a position sample or one of the other
  handlers leads to. A reset can follow any state, with or without a state to load: an
  effect calls \<^verbatim>\<open>resetGame\<close> at mount, on a new difficulty and on a loaded state, and
  the buttons and keys of the overlays call it.
\<close>

inductive reachable :: "Engine \<Rightarrow> bool" where
  init: "reachable (initialEngine pn)"
| reset: "reachable s \<Longrightarrow> resetGame d stateToLoad rnd s = Some s' \<Longrightarrow> reachable s'"
| effect: "reachable s \<Longrightarrow> reachable (timerEffect s)"
| event: "reachable s \<Longrightarrow> reachable (step e s)"
| view: "reachable s \<Longrightarrow> reachable (toggleView s)"
| level: "reachable s \<Longrightarrow> reachable (handleDifficultyChange v s)"
| position: "reachable s \<Longrightarrow> reachable (setPlayerPos wx wz s)"

text \<open>
  The five states of the progression engine, read from the flags. The code tells a loss
  of health from a loss of moves only by the message that it sets with \<^verbatim>\<open>gameOver\<close>.
\<close>

datatype Outcome = Ongoing | Won | LostHealth | LostMoves | LostTimeout

definition outcome :: "Engine \<Rightarrow> Outcome" where
  "outcome s =
     (if hasWon s then Won
      else if timerGameOver s then LostTimeout
      else if gameOver s
        then (if lastMessage s = ''Game Over: Health depleted!'' then LostHealth else LostMoves)
      else Ongoing)"

definition terminal :: "Engine \<Rightarrow> bool" where
  "terminal s = (gameOver s \<or> hasWon s \<or> timerGameOver s)"

subsection \<open>Saving and loading\<close>

text \<open>
  \<^verbatim>\<open>JSON.parse\<close> gives a document in which any field can be absent. The fields of the
  two sub-objects are not looked at one by one by the code that loads, so a sub-object is
  here either absent or complete. For \<open>doc_visitedCellTrail\<close>, \<open>None\<close> stands for every
  value that is not an array.
\<close>

record SnapshotDocument =
  doc_playerName :: "string option"
  doc_difficulty :: "DifficultyLevel option"
  doc_player :: "Player option"
  doc_game :: "Game option"
  doc_gridData :: "GridCell list list option"
  doc_visitedCellTrail :: "string list option"

definition toDocument :: "GameState \<Rightarrow> SnapshotDocument" where
  "toDocument st =
     \<lparr>doc_playerName = Some (gs_playerName st), doc_difficulty = Some (gs_difficulty st),
      doc_player = Some (gs_player st), doc_game = Some (gs_game st),
      doc_gridData = Some (gs_gridData st),
      doc_visitedCellTrail = Some (gs_visitedCellTrail st)\<rparr>"

definition storageKey :: "string \<Rightarrow> string" where
  "storageKey pName = ''gameState_'' @ pName"




definition handleLoadGame ::
  "('j \<Rightarrow> SnapshotDocument option) \<Rightarrow> string \<Rightarrow> (string \<rightharpoonup> 'j) \<Rightarrow> SnapshotDocument option" where
  "handleLoadGame parse pName store =
     (case store (storageKey pName) of
        None \<Rightarrow> None
      | Some savedGameString \<Rightarrow>
          (case parse savedGameString of
             None \<Rightarrow> None
           | Some loadedData \<Rightarrow>
               if doc_playerName loadedData = Some pName
               then Some (loadedData\<lparr>doc_visitedCellTrail :=
                            Some (case doc_visitedCellTrail loadedData of
                                    Some trail \<Rightarrow> trail | None \<Rightarrow> [])\<rparr>)
               else None))"

subsection \<open>Example states\<close>

text \<open>
  Concrete inputs at which the theorems below are evaluated: two random sources, a full
  grid with one Lava cell at \<open>(5, 6)\<close>, engine states on that grid, snapshots, and a
  stored document without grid and trail.
\<close>

definition zeroSource :: RandomSource where
  "zeroSource n = 0"

definition halfSource :: RandomSource where
  "halfSource n = (if n = 3 then 1 / 2 else 0)"

definition exampleCell :: "int \<Rightarrow> int \<Rightarrow> GridCell" where
  "exampleCell i j =
     \<lparr>cell_id = ''cell-'' @ showInt i @ ''-'' @ showInt j,
      cell_type = (if i = 5 \<and> j = 6 then LAVA else BLANK),
      cell_x = worldCoord i, cell_z = worldCoord j, cell_gridX = i, cell_gridZ = j\<rparr>"

definition exampleRow :: "int \<Rightarrow> GridCell list" where
  "exampleRow i = map (exampleCell i) [0..GRID_SIZE - 1]"

definition exampleGrid :: "GridCell list list" where
  "exampleGrid = map exampleRow [0..GRID_SIZE - 1]"

definition exampleEngine :: Engine where
  "exampleEngine = (initialEngine ''ann'')\<lparr>
     gridData := exampleGrid, currentGridIndices := \<lparr>ix = 5, iz = 5\<rparr>,
     actualStartCellIndices := \<lparr>ix = 0, iz = 3\<rparr>, endCell := \<lparr>ix = 24, iz = 3\<rparr>\<rparr>"


definition weakEngine :: Engine where
  "weakEngine = exampleEngine\<lparr>playerHealth := 10\<rparr>"


definition wonSnapshot :: GameState where
  "wonSnapshot =
     \<lparr>gs_playerName = ''ann'', gs_difficulty = easy,
      gs_player = \<lparr>gridX = 24, gridZ = 3, worldX = 12, worldZ = - 9, health = 45, moves = 120\<rparr>,
      gs_game = \<lparr>game_timeLeft = 30, game_isFpsView = False, game_currentCellType = Some BLANK,
                 game_startCell = \<lparr>ix = 0, iz = 3\<rparr>, game_endCell = \<lparr>ix = 24, iz = 3\<rparr>,
                 game_isOver = True, game_hasWon = True, game_timerGameOver = False\<rparr>,
      gs_gridData = exampleGrid, gs_visitedCellTrail = [''1,3'', ''2,3'']\<rparr>"

definition lastSecondSnapshot :: GameState where
  "lastSecondSnapshot =
     wonSnapshot\<lparr>
       gs_player := \<lparr>gridX = 23, gridZ = 3, worldX = 11, worldZ = - 9, health = 45, moves = 120\<rparr>,
       gs_game := (gs_game wonSnapshot)\<lparr>game_timeLeft := 1, game_isOver := False,
                                        game_hasWon := False\<rparr>\<rparr>"


definition restoredLastSecond :: Engine where
  "restoredLastSecond =
     the (resetGame easy (Some lastSecondSnapshot) zeroSource (initialEngine ''ann''))"

definition timedOut :: Engine where
  "timedOut = onClockTick restoredLastSecond"

definition halfData :: GameData where
  "halfData =
     \<lparr>grid = fst (genRows (blankRatio easy) \<lparr>ix = 0, iz = 0\<rparr> \<lparr>ix = 12, iz = 0\<rparr> halfSource
               [0..GRID_SIZE - 1] 4),
      startCellIndices = \<lparr>ix = 0, iz = 0\<rparr>, endCellIndices = \<lparr>ix = 12, iz = 0\<rparr>\<rparr>"

definition incompleteDocument :: SnapshotDocument where
  "incompleteDocument =
     (toDocument wonSnapshot)\<lparr>doc_gridData := None, doc_visitedCellTrail := None\<rparr>"

definition incompleteStore :: "string \<rightharpoonup> SnapshotDocument" where
  "incompleteStore = [storageKey ''ann'' \<mapsto> incompleteDocument]"

definition loadedIncomplete :: SnapshotDocument where
  "loadedIncomplete = incompleteDocument\<lparr>doc_visitedCellTrail := Some []\<rparr>"

section \<open>Theorems\<close>

subsection \<open>Auxiliary facts about the engine\<close>

lemma outcome_Ongoing_iff:
  "outcome s = Ongoing \<longleftrightarrow> \<not> gameOver s \<and> \<not> hasWon s \<and> \<not> timerGameOver s"
  by (simp add: outcome_def)

lemma clampIndex_range: "0 \<le> clampIndex g \<and> clampIndex g \<le> GRID_SIZE - 1"
  by (simp add: clampIndex_def GRID_SIZE_def)

lemma recordTrail_fields:
  "gameOver (recordTrail s) = gameOver s" "hasWon (recordTrail s) = hasWon s"
  "timerGameOver (recordTrail s) = timerGameOver s" "playerHealth (recordTrail s) = playerHealth s"
  "playerMoves (recordTrail s) = playerMoves s" "timeLeft (recordTrail s) = timeLeft s"
  "lastMessage (recordTrail s) = lastMessage s"
  by (simp_all add: recordTrail_def Let_def)

lemma gameTick_same:
  "clampIndex (toGridIndex px) = ix (currentGridIndices s) \<Longrightarrow>
   clampIndex (toGridIndex pz) = iz (currentGridIndices s) \<Longrightarrow> gameTick px pz s = s"
  by (simp add: gameTick_def Let_def)

lemma gameTick_moved:
  "clampIndex (toGridIndex px) \<noteq> ix (currentGridIndices s) \<or>
   clampIndex (toGridIndex pz) \<noteq> iz (currentGridIndices s) \<Longrightarrow>
   gameTick px pz s =
     enterCell s (clampIndex (toGridIndex px)) (clampIndex (toGridIndex pz))
       ((recordTrail s)\<lparr>currentGridIndices :=
          \<lparr>ix = clampIndex (toGridIndex px), iz = clampIndex (toGridIndex pz)\<rparr>\<rparr>)"
  by (simp add: gameTick_def Let_def)


lemma enterCell_effect:
  assumes "gridLookup (gridData s0) cx cz = Some c" "\<not> (cx = ix (endCell s0) \<and> cz = iz (endCell s0))"
    "\<not> gameOver s0" "\<not> hasWon s0" "\<not> timerGameOver s0"
  shows "enterCell s0 cx cz s =
    (let h = playerHealth s0 + healthChange (CELL_EFFECTS (cell_type c));
         m = playerMoves s0 + movesChange (CELL_EFFECTS (cell_type c))
     in if h \<le> 0 then s\<lparr>playerHealth := h, playerMoves := m, gameOver := True, lastMessage := ''Game Over: Health depleted!''\<rparr>
        else if m \<le> 0 then s\<lparr>playerHealth := h, playerMoves := m, gameOver := True, lastMessage := ''Game Over: Ran out of moves!''\<rparr>
        else s\<lparr>playerHealth := h, playerMoves := m, lastMessage := effectMessage (CELL_EFFECTS (cell_type c))\<rparr>)"
  using assms by (auto simp add: enterCell_def Let_def)

lemma resetGame_resetFlags:
  assumes "resetGame d stateToLoad rnd s = Some s'"
  shows "\<exists>t. s' = resetFlags t"
  using assms unfolding resetGame_def
  by (cases stateToLoad; cases "initializeGameData d rnd";
      simp only: option.case option.inject option.distinct; blast)

lemma resetGame_flags:
  assumes "resetGame d stateToLoad rnd s = Some s'"
  shows "\<not> gameOver s' \<and> \<not> hasWon s' \<and> \<not> timerGameOver s'"
proof -
  from resetGame_resetFlags[OF assms] obtain t where "s' = resetFlags t" ..
  then show ?thesis by (simp add: resetFlags_def)
qed

lemma enterCell_flags:
  assumes "\<not> timerGameOver s" "hasWon s \<longrightarrow> gameOver s"
  shows "\<not> timerGameOver (enterCell s0 cx cz s)
    \<and> (hasWon (enterCell s0 cx cz s) \<longrightarrow> gameOver (enterCell s0 cx cz s))"
  using assms by (auto simp: enterCell_def Let_def split: option.splits)

lemma onPositionSample_flags:
  assumes "timerGameOver s \<longrightarrow> gameOver s" "hasWon s \<longrightarrow> gameOver s"
  shows "(timerGameOver (onPositionSample px pz s) \<longrightarrow> gameOver (onPositionSample px pz s))
    \<and> (hasWon (onPositionSample px pz s) \<longrightarrow> gameOver (onPositionSample px pz s))"
proof (cases "gameOver s \<or> hasWon s")
  case True
  with assms show ?thesis by (simp add: onPositionSample_def)
next
  case False
  with assms have f: "\<not> gameOver s" "\<not> hasWon s" "\<not> timerGameOver s" by auto
  show ?thesis
  proof (cases "clampIndex (toGridIndex px) \<noteq> ix (currentGridIndices s) \<or>
      clampIndex (toGridIndex pz) \<noteq> iz (currentGridIndices s)")
    case True
    have "onPositionSample px pz s =
        enterCell s (clampIndex (toGridIndex px)) (clampIndex (toGridIndex pz))
          ((recordTrail s)\<lparr>currentGridIndices :=
            \<lparr>ix = clampIndex (toGridIndex px), iz = clampIndex (toGridIndex pz)\<rparr>\<rparr>)"
      using f gameTick_moved[OF True] by (simp add: onPositionSample_def)
    then show ?thesis
      using f by (simp add: enterCell_flags recordTrail_fields)
  next
    case False
    then have "onPositionSample px pz s = s"
      using f by (simp add: onPositionSample_def gameTick_same)
    with f show ?thesis by simp
  qed
qed

lemma flags_invariant:
  "reachable s \<Longrightarrow> (timerGameOver s \<longrightarrow> gameOver s) \<and> (hasWon s \<longrightarrow> gameOver s)"
proof (induction rule: reachable.induct)
  case (init pn)
  show ?case by (simp add: initialEngine_def)
next
  case (reset s d stateToLoad rnd s')
  from resetGame_flags[OF reset.hyps(2)] show ?case by simp
next
  case (effect s)
  then show ?case by (auto simp: timerEffect_def)
next
  case (event s e)
  show ?case
  proof (cases e)
    case (PositionSample px pz)
    with onPositionSample_flags[of s px pz] event.IH show ?thesis by simp
  next
    case ClockTick
    with event.IH show ?thesis
      by (auto simp: onClockTick_def timerEffect_def timerArmed_def)
  qed
next
  case (view s)
  then show ?case by (auto simp: toggleView_def Let_def)
next
  case (level s v)
  then show ?case by (simp add: handleDifficultyChange_def)
next
  case (position s wx wz)
  then show ?case by (simp add: setPlayerPos_def)
qed

lemma timerEffect_terminal: "terminal s \<Longrightarrow> timerEffect s = s"
  by (simp add: timerEffect_def terminal_def)

lemma timerArmed_terminal: "terminal s \<Longrightarrow> \<not> timerArmed s"
  by (simp add: timerArmed_def terminal_def)

lemma onClockTick_terminal: "terminal s \<Longrightarrow> onClockTick s = s"
  by (simp add: onClockTick_def timerEffect_terminal timerArmed_terminal)

lemma terminal_step:
  assumes "gameOver s \<or> hasWon s"
  shows "step e s = s"
proof -
  from assms have "terminal s" by (auto simp: terminal_def)
  then show ?thesis
    using assms by (cases e) (simp_all add: onPositionSample_def onClockTick_terminal)
qed




subsection \<open>Auxiliary facts about grid generation\<close>

lemma Indices_eta: "\<lparr>ix = ix c, iz = iz c\<rparr> = c"
  by (cases c) simp

lemma getRandomInt_range:
  assumes "0 \<le> r" "r < 1" "0 < m"
  shows "0 \<le> getRandomInt 0 m r \<and> getRandomInt 0 m r < m"
proof -
  have "0 \<le> r * real_of_int m" using assms by simp
  moreover have "r * real_of_int m < real_of_int m" using assms by simp
  ultimately show ?thesis
    unfolding getRandomInt_def by (simp add: floor_less_iff)
qed

lemma getRandomInt_interval:
  assumes "0 < m"
  shows "getRandomInt 0 m r = k
    \<longleftrightarrow> real_of_int k / real_of_int m \<le> r \<and> r < (real_of_int k + 1) / real_of_int m"
proof -
  have "getRandomInt 0 m r = k
      \<longleftrightarrow> real_of_int k \<le> r * real_of_int m \<and> r * real_of_int m < real_of_int k + 1"
    unfolding getRandomInt_def by (simp add: floor_eq_iff)
  then show ?thesis using assms by (simp add: field_simps)
qed

lemma drawPerimeterCell_ok:
  assumes "validSource rnd"
  shows "inGrid (drawPerimeterCell rnd n) \<and> onPerimeter (drawPerimeterCell rnd n)"
proof -
  have "0 \<le> getRandomInt 0 GRID_SIZE (rnd (n + 1))
      \<and> getRandomInt 0 GRID_SIZE (rnd (n + 1)) < GRID_SIZE"
    using assms by (intro getRandomInt_range) (auto simp: validSource_def GRID_SIZE_def)
  then show ?thesis
    by (auto simp: drawPerimeterCell_def edgeCell_def inGrid_def onPerimeter_def Let_def
        GRID_SIZE_def)
qed

lemma first_draw:
  assumes "validSource rnd"
  shows "getRandomPerimeterCell rnd n (- 1) (- 1) = Some (drawPerimeterCell rnd n, n + 2)"
  using drawPerimeterCell_ok[OF assms, of n]
  by (subst getRandomPerimeterCell.simps) (auto simp: inGrid_def Let_def)

lemma resample_returns:
  assumes "drawPerimeterCell rnd (n + 2 * k) \<noteq> \<lparr>ix = ex, iz = ez\<rparr>"
  shows "\<exists>j\<le>k. getRandomPerimeterCell rnd n ex ez
             = Some (drawPerimeterCell rnd (n + 2 * j), n + 2 * j + 2)
           \<and> drawPerimeterCell rnd (n + 2 * j) \<noteq> \<lparr>ix = ex, iz = ez\<rparr>"
  using assms
proof (induction k arbitrary: n)
  case 0
  then have "\<not> (ix (drawPerimeterCell rnd n) = ex \<and> iz (drawPerimeterCell rnd n) = ez)"
    by (cases "drawPerimeterCell rnd n") auto
  then have "getRandomPerimeterCell rnd n ex ez = Some (drawPerimeterCell rnd n, n + 2)"
    by (subst getRandomPerimeterCell.simps) (auto simp: Let_def)
  with 0 show ?case by simp
next
  case (Suc k)
  show ?case
  proof (cases "ix (drawPerimeterCell rnd n) = ex \<and> iz (drawPerimeterCell rnd n) = ez")
    case True
    from Suc.prems have "drawPerimeterCell rnd ((n + 2) + 2 * k) \<noteq> \<lparr>ix = ex, iz = ez\<rparr>"
      by (simp add: add.commute add.left_commute)
    from Suc.IH[OF this] obtain j where j: "j \<le> k"
      "getRandomPerimeterCell rnd (n + 2) ex ez
         = Some (drawPerimeterCell rnd (n + 2 + 2 * j), n + 2 + 2 * j + 2)"
      "drawPerimeterCell rnd (n + 2 + 2 * j) \<noteq> \<lparr>ix = ex, iz = ez\<rparr>" by blast
    have "getRandomPerimeterCell rnd n ex ez = getRandomPerimeterCell rnd (n + 2) ex ez"
      using True by (subst getRandomPerimeterCell.simps) (simp add: Let_def)
    with j show ?thesis
      by (intro exI[of _ "Suc j"]) (simp add: add.commute add.left_commute)
  next
    case False
    then have "getRandomPerimeterCell rnd n ex ez = Some (drawPerimeterCell rnd n, n + 2)"
      by (subst getRandomPerimeterCell.simps) (auto simp: Let_def)
    moreover from False have "drawPerimeterCell rnd n \<noteq> \<lparr>ix = ex, iz = ez\<rparr>" by auto
    ultimately show ?thesis by (intro exI[of _ 0]) simp
  qed
qed

text \<open>
  A loop that returns has drawn, in one of its passes, a cell other than the excluded
  one: the condition of \<open>resample_returns\<close> is necessary too.
\<close>

lemma returns_only_if_drawn:
  "getRandomPerimeterCell rnd n ex ez = Some y
     \<Longrightarrow> \<exists>k. drawPerimeterCell rnd (n + 2 * k) \<noteq> \<lparr>ix = ex, iz = ez\<rparr>"
proof (rule getRandomPerimeterCell.raw_induct
    [where P = "\<lambda>rnd n ex ez y. \<exists>k. drawPerimeterCell rnd (n + 2 * k) \<noteq> \<lparr>ix = ex, iz = ez\<rparr>"])
  fix f :: "RandomSource \<Rightarrow> nat \<Rightarrow> int \<Rightarrow> int \<Rightarrow> (Indices \<times> nat) option"
    and rnd n ex ez y
  assume IH: "\<And>rnd n ex ez y. f rnd n ex ez = Some y \<Longrightarrow>
                \<exists>k. drawPerimeterCell rnd (n + 2 * k) \<noteq> \<lparr>ix = ex, iz = ez\<rparr>"
    and body: "(let c = drawPerimeterCell rnd n
                in if ix c = ex \<and> iz c = ez then f rnd (n + 2) ex ez else Some (c, n + 2))
               = Some y"
  show "\<exists>k. drawPerimeterCell rnd (n + 2 * k) \<noteq> \<lparr>ix = ex, iz = ez\<rparr>"
  proof (cases "ix (drawPerimeterCell rnd n) = ex \<and> iz (drawPerimeterCell rnd n) = ez")
    case True
    with body have "f rnd (n + 2) ex ez = Some y" by (simp add: Let_def)
    from IH[OF this] obtain k
      where "drawPerimeterCell rnd (n + 2 + 2 * k) \<noteq> \<lparr>ix = ex, iz = ez\<rparr>" ..
    then have "drawPerimeterCell rnd (n + 2 * Suc k) \<noteq> \<lparr>ix = ex, iz = ez\<rparr>"
      by (simp add: add.commute add.left_commute)
    then show ?thesis ..
  next
    case False
    then have "drawPerimeterCell rnd (n + 2 * 0) \<noteq> \<lparr>ix = ex, iz = ez\<rparr>" by auto
    then show ?thesis ..
  qed
qed

lemma initializeGameData_returns_only_if:
  assumes "validSource rnd" and "initializeGameData d rnd = Some g"
  shows "\<exists>k. drawPerimeterCell rnd (2 + 2 * k) \<noteq> drawPerimeterCell rnd 0"
proof -
  have first: "getRandomPerimeterCell rnd 0 (- 1) (- 1) = Some (drawPerimeterCell rnd 0, 2)"
    using first_draw[OF assms(1), of 0] by simp
  from assms(2) obtain y where
    "getRandomPerimeterCell rnd 2 (ix (drawPerimeterCell rnd 0)) (iz (drawPerimeterCell rnd 0))
       = Some y"
    by (auto simp: initializeGameData_def first split: option.splits)
  from returns_only_if_drawn[OF this] show ?thesis
    by (simp add: Indices_eta)
qed

text \<open>With a value in \<open>[0, 1)\<close> the index into \<open>effectCellTypes\<close> is 0, 1 or 2.\<close>

lemma effect_index_in_range:
  assumes "0 \<le> r" "r < 1"
  shows "nat \<lfloor>r * real (length effectCellTypes)\<rfloor> < length effectCellTypes"
proof -
  have "\<lfloor>r * 3\<rfloor> < 3" using assms by (simp add: floor_less_iff)
  then have "nat \<lfloor>r * 3\<rfloor> < 3" by linarith
  then show ?thesis by (simp add: effectCellTypes_def)
qed

lemma genCell_fields:
  "cell_gridX (fst (genCell ratio st en rnd i j n)) = i"
  "cell_gridZ (fst (genCell ratio st en rnd i j n)) = j"
  "cell_x (fst (genCell ratio st en rnd i j n))
     = (real_of_int i - real_of_int GRID_SIZE / 2 + 1 / 2) * CELL_UNIT_SIZE"
  "cell_z (fst (genCell ratio st en rnd i j n))
     = (real_of_int j - real_of_int GRID_SIZE / 2 + 1 / 2) * CELL_UNIT_SIZE"
  "(i = ix st \<and> j = iz st) \<or> (i = ix en \<and> j = iz en)
     \<Longrightarrow> cell_type (fst (genCell ratio st en rnd i j n)) = BLANK"
  by (simp_all add: genCell_def Let_def split_beta)

lemma genRow_cells:
  "list_all2 (\<lambda>j c. \<exists>m. c = fst (genCell ratio st en rnd i j m)) js
     (fst (genRow ratio st en rnd i js n))"
proof (induction js arbitrary: n)
  case Nil
  show ?case by simp
next
  case (Cons j js)
  have "\<exists>m. fst (genCell ratio st en rnd i j n) = fst (genCell ratio st en rnd i j m)"
    by blast
  with Cons show ?case
    by (simp add: split_beta Let_def)
qed

lemma genRows_rows:
  "list_all2 (\<lambda>i row. \<exists>m. row = fst (genRow ratio st en rnd i [0..GRID_SIZE - 1] m)) rs
     (fst (genRows ratio st en rnd rs n))"
proof (induction rs arbitrary: n)
  case Nil
  show ?case by simp
next
  case (Cons i rs)
  have "\<exists>m. fst (genRow ratio st en rnd i [0..GRID_SIZE - 1] n)
          = fst (genRow ratio st en rnd i [0..GRID_SIZE - 1] m)"
    by blast
  with Cons show ?case
    by (simp add: split_beta Let_def)
qed

lemma gridLookup_genRows:
  assumes "0 \<le> i" "i < GRID_SIZE" "0 \<le> j" "j < GRID_SIZE"
  shows "\<exists>m. gridLookup (fst (genRows ratio st en rnd [0..GRID_SIZE - 1] n)) i j
           = Some (fst (genCell ratio st en rnd i j m))"
proof -
  let ?g = "fst (genRows ratio st en rnd [0..GRID_SIZE - 1] n)"
  have i: "nat i < length [0..GRID_SIZE - 1]" and j: "nat j < length [0..GRID_SIZE - 1]"
    using assms by (simp_all add: GRID_SIZE_def)
  have nth_i: "[0..GRID_SIZE - 1] ! nat i = i" and nth_j: "[0..GRID_SIZE - 1] ! nat j = j"
    using assms by (simp_all add: GRID_SIZE_def)
  have rows: "list_all2 (\<lambda>i row. \<exists>m. row = fst (genRow ratio st en rnd i [0..GRID_SIZE - 1] m))
      [0..GRID_SIZE - 1] ?g"
    by (rule genRows_rows)
  have glen: "length ?g = length [0..GRID_SIZE - 1]"
    using list_all2_lengthD[OF rows] by simp
  have "\<exists>m. ?g ! nat i = fst (genRow ratio st en rnd ([0..GRID_SIZE - 1] ! nat i)
      [0..GRID_SIZE - 1] m)"
    by (rule list_all2_nthD[OF rows i])
  then obtain m where row: "?g ! nat i = fst (genRow ratio st en rnd i [0..GRID_SIZE - 1] m)"
    unfolding nth_i by blast
  have cells: "list_all2 (\<lambda>j c. \<exists>m. c = fst (genCell ratio st en rnd i j m))
      [0..GRID_SIZE - 1] (?g ! nat i)"
    unfolding row by (rule genRow_cells)
  have rlen: "length (?g ! nat i) = length [0..GRID_SIZE - 1]"
    using list_all2_lengthD[OF cells] by simp
  have "\<exists>m. ?g ! nat i ! nat j = fst (genCell ratio st en rnd i ([0..GRID_SIZE - 1] ! nat j) m)"
    by (rule list_all2_nthD[OF cells j])
  then obtain m' where "?g ! nat i ! nat j = fst (genCell ratio st en rnd i j m')"
    unfolding nth_j by blast
  then show ?thesis
    using assms i j glen rlen by (auto simp: gridLookup_def Let_def)
qed

lemma zeroSource_draw: "drawPerimeterCell zeroSource m = \<lparr>ix = 0, iz = 0\<rparr>"
  by (simp add: drawPerimeterCell_def getRandomInt_def edgeCell_def zeroSource_def)

lemma zeroSource_valid: "validSource zeroSource"
  by (simp add: validSource_def zeroSource_def)

lemma zeroSource_never_returns: "getRandomPerimeterCell zeroSource n 0 0 = None"
proof (cases "getRandomPerimeterCell zeroSource n 0 0")
  case None
  then show ?thesis .
next
  case (Some y)
  from returns_only_if_drawn[OF this] show ?thesis by (simp add: zeroSource_draw)
qed

lemma halfSource_valid: "validSource halfSource"
  by (simp add: validSource_def halfSource_def)

lemma halfSource_draws:
  "drawPerimeterCell halfSource 0 = \<lparr>ix = 0, iz = 0\<rparr>"
  "drawPerimeterCell halfSource 2 = \<lparr>ix = 12, iz = 0\<rparr>"
  by (simp_all add: drawPerimeterCell_def getRandomInt_def edgeCell_def halfSource_def
      GRID_SIZE_def)

subsection \<open>Auxiliary facts about sets of keys, resets and the perimeter count\<close>

lemma set_foldl_setAdd: "set (foldl setAdd acc xs) = set acc \<union> set xs"
  by (induction xs arbitrary: acc) (auto simp: setAdd_def)

lemma foldl_setAdd_distinct: "distinct (acc @ xs) \<Longrightarrow> foldl setAdd acc xs = acc @ xs"
  by (induction xs arbitrary: acc) (auto simp: setAdd_def)

lemma set_newSet: "set (newSet xs) = set xs"
  by (simp add: newSet_def set_foldl_setAdd)

lemma newSet_distinct: "distinct xs \<Longrightarrow> newSet xs = xs"
  using foldl_setAdd_distinct[of "[]" xs] by (simp add: newSet_def)

lemma resetGame_loaded:
  "\<exists>t. resetGame d (Some st) rnd s = Some (resetFlags t)
     \<and> gridData t = gs_gridData st
     \<and> visitedCellTrail t = newSet (gs_visitedCellTrail st)
     \<and> currentGridIndices t = \<lparr>ix = gridX (gs_player st), iz = gridZ (gs_player st)\<rparr>
     \<and> playerStartPos t = (worldX (gs_player st), PLAYER_Y_POSITION, worldZ (gs_player st))
     \<and> playerHealth t = health (gs_player st) \<and> playerMoves t = moves (gs_player st)
     \<and> timeLeft t = game_timeLeft (gs_game st) \<and> difficulty t = gs_difficulty st
     \<and> isFpsView t = game_isFpsView (gs_game st)
     \<and> actualStartCellIndices t = game_startCell (gs_game st)
     \<and> endCell t = game_endCell (gs_game st)"
  unfolding resetGame_def option.case
  by (rule exI, rule conjI, rule refl) simp

lemma resetGame_fresh:
  assumes "initializeGameData d rnd = Some g"
  shows "\<exists>t. resetGame d None rnd s = Some (resetFlags t)
     \<and> gridData t = grid g
     \<and> currentGridIndices t = startCellIndices g
     \<and> actualStartCellIndices t = startCellIndices g
     \<and> endCell t = endCellIndices g
     \<and> playerHealth t = INITIAL_PLAYER_HEALTH \<and> playerMoves t = INITIAL_PLAYER_MOVES
     \<and> timeLeft t = GAME_DURATION_SECONDS \<and> visitedCellTrail t = []"
  unfolding resetGame_def option.case assms
  by (rule exI, rule conjI, rule refl) simp

lemma resetFlags_fields:
  "gameOver (resetFlags t) = False" "hasWon (resetFlags t) = False"
  "timerGameOver (resetFlags t) = False" "gridData (resetFlags t) = gridData t"
  "visitedCellTrail (resetFlags t) = visitedCellTrail t"
  "currentGridIndices (resetFlags t) = currentGridIndices t"
  "playerStartPos (resetFlags t) = playerStartPos t"
  "playerHealth (resetFlags t) = playerHealth t" "playerMoves (resetFlags t) = playerMoves t"
  "timeLeft (resetFlags t) = timeLeft t" "difficulty (resetFlags t) = difficulty t"
  "isFpsView (resetFlags t) = isFpsView t"
  "actualStartCellIndices (resetFlags t) = actualStartCellIndices t"
  "endCell (resetFlags t) = endCell t"
  by (simp_all add: resetFlags_def)

lemma halfSource_data: "initializeGameData easy halfSource = Some halfData"
proof -
  have first: "getRandomPerimeterCell halfSource 0 (- 1) (- 1) = Some (\<lparr>ix = 0, iz = 0\<rparr>, 2)"
    using first_draw[OF halfSource_valid, of 0] by (simp add: halfSource_draws)
  have second: "getRandomPerimeterCell halfSource 2 0 0 = Some (\<lparr>ix = 12, iz = 0\<rparr>, 4)"
    by (subst getRandomPerimeterCell.simps) (simp add: halfSource_draws Let_def)
  show ?thesis
    by (simp add: initializeGameData_def first second halfData_def)
qed

lemma count_in_upto:
  "length (filter (\<lambda>k. k = a \<and> B) [l..u]) = (if B \<and> l \<le> a \<and> a \<le> u then 1 else 0)"
proof (cases B)
  case True
  have "length (filter (\<lambda>k. k = a) [l..u]) = card ({k. k = a} \<inter> set [l..u])"
    by (rule distinct_length_filter) simp
  also have "{k. k = a} \<inter> set [l..u] = (if l \<le> a \<and> a \<le> u then {a} else {})"
    by auto
  finally show ?thesis using True by simp
next
  case False
  then show ?thesis by simp
qed

lemma edgeCell_eq:
  "edgeCell 0 k = c \<longleftrightarrow> k = ix c \<and> iz c = 0"
  "edgeCell 1 k = c \<longleftrightarrow> k = ix c \<and> iz c = GRID_SIZE - 1"
  "edgeCell 2 k = c \<longleftrightarrow> k = iz c \<and> ix c = 0"
  "edgeCell 3 k = c \<longleftrightarrow> k = iz c \<and> ix c = GRID_SIZE - 1"
  by (cases c; auto simp: edgeCell_def)+

text \<open>The pairs that \<open>edgeCell\<close> sends to a cell, counted edge by edge.\<close>

lemma perimeter_count_edges:
  "length (filter (\<lambda>(edge, k). edgeCell edge k = c) edgeOffsetPairs)
     = (if iz c = 0 \<and> 0 \<le> ix c \<and> ix c \<le> GRID_SIZE - 1 then 1 else 0)
       + (if iz c = GRID_SIZE - 1 \<and> 0 \<le> ix c \<and> ix c \<le> GRID_SIZE - 1 then 1 else 0)
       + (if ix c = 0 \<and> 0 \<le> iz c \<and> iz c \<le> GRID_SIZE - 1 then 1 else 0)
       + (if ix c = GRID_SIZE - 1 \<and> 0 \<le> iz c \<and> iz c \<le> GRID_SIZE - 1 then 1 else 0)"
proof -
  have edges: "[0..3] = [0, 1, 2, 3::int]"
    by (simp add: upto_rec1)
  have "length (filter (\<lambda>(edge, k). edgeCell edge k = c) edgeOffsetPairs)
      = length (filter (\<lambda>k. edgeCell 0 k = c) [0..GRID_SIZE - 1])
        + length (filter (\<lambda>k. edgeCell 1 k = c) [0..GRID_SIZE - 1])
        + length (filter (\<lambda>k. edgeCell 2 k = c) [0..GRID_SIZE - 1])
        + length (filter (\<lambda>k. edgeCell 3 k = c) [0..GRID_SIZE - 1])"
    by (simp add: edgeOffsetPairs_def edges filter_map comp_def)
  then show ?thesis
    unfolding edgeCell_eq count_in_upto by simp
qed

lemma length_edgeOffsetPairs: "length edgeOffsetPairs = 100"
  by (simp add: edgeOffsetPairs_def GRID_SIZE_def)

subsection \<open>Facts about the example states\<close>

lemma gridLookup_exampleGrid:
  assumes "0 \<le> i" "i < GRID_SIZE" "0 \<le> j" "j < GRID_SIZE"
  shows "gridLookup exampleGrid i j = Some (exampleCell i j)"
proof -
  have i: "nat i < 25" and j: "nat j < 25" using assms by (simp_all add: GRID_SIZE_def)
  have rows: "exampleGrid ! nat i = exampleRow i"
    using assms i by (simp add: exampleGrid_def GRID_SIZE_def)
  have cell: "exampleRow i ! nat j = exampleCell i j"
    using assms j by (simp add: exampleRow_def GRID_SIZE_def)
  have len: "length exampleGrid = 25" "length (exampleRow i) = 25"
    by (simp_all add: exampleGrid_def exampleRow_def GRID_SIZE_def)
  show ?thesis
    using assms i j by (simp add: gridLookup_def rows cell len)
qed

lemma toGridIndex_examples:
  "clampIndex (toGridIndex (- 7)) = 5" "clampIndex (toGridIndex (- 6)) = 6"
  "clampIndex (toGridIndex 12) = 24" "clampIndex (toGridIndex (- 9)) = 3"
  by (simp_all add: clampIndex_def toGridIndex_def CELL_UNIT_SIZE_def GRID_SIZE_def round_def)

lemma exampleEngine_fields:
  "gameOver exampleEngine = False" "hasWon exampleEngine = False"
  "timerGameOver exampleEngine = False" "gridData exampleEngine = exampleGrid"
  "currentGridIndices exampleEngine = \<lparr>ix = 5, iz = 5\<rparr>"
  "endCell exampleEngine = \<lparr>ix = 24, iz = 3\<rparr>"
  "playerHealth exampleEngine = 100" "playerMoves exampleEngine = 200"
  "timeLeft exampleEngine = 60"
  by (simp_all add: exampleEngine_def initialEngine_def INITIAL_PLAYER_HEALTH_def
      INITIAL_PLAYER_MOVES_def GAME_DURATION_SECONDS_def)


lemma restoredLastSecond_fields:
  "resetGame easy (Some lastSecondSnapshot) zeroSource (initialEngine ''ann'')
     = Some restoredLastSecond"
  "gameOver restoredLastSecond = False" "hasWon restoredLastSecond = False"
  "timerGameOver restoredLastSecond = False" "timeLeft restoredLastSecond = 1"
  by (simp_all add: restoredLastSecond_def resetGame_def resetFlags_def lastSecondSnapshot_def
      wonSnapshot_def)

lemma timedOut_fields:
  "gameOver timedOut = True" "hasWon timedOut = False" "timerGameOver timedOut = True"
  "timeLeft timedOut = 0"
  by (simp_all add: timedOut_def onClockTick_def timerArmed_def timerEffect_def
      restoredLastSecond_fields)

subsection \<open>The table of cell effects\<close>

text \<open>
  C4. The lookup in \<^verbatim>\<open>CELL_EFFECTS\<close> is defined for each of the four cell types and
  gives the fixed deltas: Blank (health 0, moves -1), Speeder (-5, 0), Lava (-50, -10),
  Mud (-10, -5).
\<close>

theorem CELL_EFFECTS_table:
  "healthChange (CELL_EFFECTS BLANK) = 0 \<and> movesChange (CELL_EFFECTS BLANK) = -1 \<and>
   healthChange (CELL_EFFECTS SPEEDER) = -5 \<and> movesChange (CELL_EFFECTS SPEEDER) = 0 \<and>
   healthChange (CELL_EFFECTS LAVA) = -50 \<and> movesChange (CELL_EFFECTS LAVA) = -10 \<and>
   healthChange (CELL_EFFECTS MUD) = -10 \<and> movesChange (CELL_EFFECTS MUD) = -5 \<and>
   (\<forall>t. t = BLANK \<or> t = SPEEDER \<or> t = LAVA \<or> t = MUD)"
proof -
  have "t = BLANK \<or> t = SPEEDER \<or> t = LAVA \<or> t = MUD" for t
    by (cases t) simp_all
  then show ?thesis by simp
qed

subsection \<open>Grid generation\<close>

text \<open>
  C5, as amended. For every difficulty and every random source with values in \<open>[0, 1)\<close>
  in which some pass of the resampling loop for the end cell (the pass number \<open>k\<close>, which
  reads the draws \<open>2 + 2k\<close> and \<open>3 + 2k\<close>) gives a cell other than the start cell,
  \<^verbatim>\<open>initializeGameData\<close> returns; start and end cell differ and both lie in the grid
  and on its perimeter; every index pair of the grid holds a cell with these indices, a
  type among the four, world coordinates \<open>(index - GRID_SIZE / 2 + 1/2) * CELL_UNIT_SIZE\<close>,
  and type Blank at the start and at the end cell. The condition on the source is the
  one under which the generation returns (lemma \<open>initializeGameData_returns_only_if\<close>);
  a random source meets it with probability 1.
\<close>

theorem initializeGameData_valid:
  assumes "validSource rnd"
    and "drawPerimeterCell rnd (2 + 2 * k) \<noteq> drawPerimeterCell rnd 0"
  shows "\<exists>g. initializeGameData d rnd = Some g
    \<and> startCellIndices g \<noteq> endCellIndices g
    \<and> inGrid (startCellIndices g) \<and> onPerimeter (startCellIndices g)
    \<and> inGrid (endCellIndices g) \<and> onPerimeter (endCellIndices g)
    \<and> (\<forall>i j. 0 \<le> i \<and> i < GRID_SIZE \<and> 0 \<le> j \<and> j < GRID_SIZE \<longrightarrow>
         (\<exists>c. gridLookup (grid g) i j = Some c
            \<and> cell_gridX c = i \<and> cell_gridZ c = j
            \<and> cell_type c \<in> {BLANK, SPEEDER, LAVA, MUD}
            \<and> cell_x c = (real_of_int i - real_of_int GRID_SIZE / 2 + 1 / 2) * CELL_UNIT_SIZE
            \<and> cell_z c = (real_of_int j - real_of_int GRID_SIZE / 2 + 1 / 2) * CELL_UNIT_SIZE
            \<and> ((i = ix (startCellIndices g) \<and> j = iz (startCellIndices g))
                 \<or> (i = ix (endCellIndices g) \<and> j = iz (endCellIndices g))
               \<longrightarrow> cell_type c = BLANK)))"
proof -
  let ?st = "drawPerimeterCell rnd 0"
  have first: "getRandomPerimeterCell rnd 0 (- 1) (- 1) = Some (?st, 2)"
    using first_draw[OF assms(1), of 0] by simp
  have "drawPerimeterCell rnd (2 + 2 * k) \<noteq> \<lparr>ix = ix ?st, iz = iz ?st\<rparr>"
    using assms(2) by (simp add: Indices_eta)
  from resample_returns[OF this] obtain j where
    second: "getRandomPerimeterCell rnd 2 (ix ?st) (iz ?st)
               = Some (drawPerimeterCell rnd (2 + 2 * j), 2 + 2 * j + 2)"
    and diff: "drawPerimeterCell rnd (2 + 2 * j) \<noteq> \<lparr>ix = ix ?st, iz = iz ?st\<rparr>"
    by blast
  let ?en = "drawPerimeterCell rnd (2 + 2 * j)"
  let ?grid = "fst (genRows (blankRatio d) ?st ?en rnd [0..GRID_SIZE - 1] (2 + 2 * j + 2))"
  let ?g = "\<lparr>grid = ?grid, startCellIndices = ?st, endCellIndices = ?en\<rparr>"
  have ret: "initializeGameData d rnd = Some ?g"
    by (simp add: initializeGameData_def first second)
  have ne: "?st \<noteq> ?en" using diff by (auto simp: Indices_eta)
  have cells: "\<exists>c. gridLookup ?grid i j = Some c
            \<and> cell_gridX c = i \<and> cell_gridZ c = j
            \<and> cell_type c \<in> {BLANK, SPEEDER, LAVA, MUD}
            \<and> cell_x c = (real_of_int i - real_of_int GRID_SIZE / 2 + 1 / 2) * CELL_UNIT_SIZE
            \<and> cell_z c = (real_of_int j - real_of_int GRID_SIZE / 2 + 1 / 2) * CELL_UNIT_SIZE
            \<and> ((i = ix ?st \<and> j = iz ?st) \<or> (i = ix ?en \<and> j = iz ?en) \<longrightarrow> cell_type c = BLANK)"
    if "0 \<le> i \<and> i < GRID_SIZE \<and> 0 \<le> j \<and> j < GRID_SIZE" for i j
  proof -
    from that gridLookup_genRows[of i j "blankRatio d" ?st ?en rnd]
    obtain m where m: "gridLookup ?grid i j
        = Some (fst (genCell (blankRatio d) ?st ?en rnd i j m))"
      by blast
    have "cell_type (fst (genCell (blankRatio d) ?st ?en rnd i j m))
        \<in> {BLANK, SPEEDER, LAVA, MUD}"
      by (cases "cell_type (fst (genCell (blankRatio d) ?st ?en rnd i j m))") simp_all
    with m show ?thesis
      by (simp add: genCell_fields)
  qed
  show ?thesis
  proof (intro exI[of _ ?g] conjI)
    show "initializeGameData d rnd = Some ?g" by (rule ret)
    show "startCellIndices ?g \<noteq> endCellIndices ?g" using ne by simp
    show "inGrid (startCellIndices ?g)" "onPerimeter (startCellIndices ?g)"
      "inGrid (endCellIndices ?g)" "onPerimeter (endCellIndices ?g)"
      using drawPerimeterCell_ok[OF assms(1)] by simp_all
    show "\<forall>i j. 0 \<le> i \<and> i < GRID_SIZE \<and> 0 \<le> j \<and> j < GRID_SIZE \<longrightarrow>
         (\<exists>c. gridLookup (grid ?g) i j = Some c
            \<and> cell_gridX c = i \<and> cell_gridZ c = j
            \<and> cell_type c \<in> {BLANK, SPEEDER, LAVA, MUD}
            \<and> cell_x c = (real_of_int i - real_of_int GRID_SIZE / 2 + 1 / 2) * CELL_UNIT_SIZE
            \<and> cell_z c = (real_of_int j - real_of_int GRID_SIZE / 2 + 1 / 2) * CELL_UNIT_SIZE
            \<and> ((i = ix (startCellIndices ?g) \<and> j = iz (startCellIndices ?g))
                 \<or> (i = ix (endCellIndices ?g) \<and> j = iz (endCellIndices ?g))
               \<longrightarrow> cell_type c = BLANK))"
      using cells by simp
  qed
qed

text \<open>
  A source whose first pass gives the corner \<open>(0, 0)\<close> and whose second pass gives
  \<open>(12, 0)\<close>.
\<close>

theorem initializeGameData_valid_witness:
  "validSource halfSource
   \<and> drawPerimeterCell halfSource (2 + 2 * 0) \<noteq> drawPerimeterCell halfSource 0
   \<and> (\<exists>g. initializeGameData easy halfSource = Some g
        \<and> startCellIndices g \<noteq> endCellIndices g
        \<and> onPerimeter (startCellIndices g) \<and> onPerimeter (endCellIndices g)
        \<and> (\<exists>c. gridLookup (grid g) (ix (endCellIndices g)) (iz (endCellIndices g)) = Some c
              \<and> cell_type c = BLANK))"
proof -
  have d: "drawPerimeterCell halfSource (2 + 2 * 0) \<noteq> drawPerimeterCell halfSource 0"
    by (simp add: halfSource_draws)
  from initializeGameData_valid[OF halfSource_valid d, of easy]
  obtain g where g: "initializeGameData easy halfSource = Some g"
    "startCellIndices g \<noteq> endCellIndices g"
    "inGrid (endCellIndices g)"
    "onPerimeter (startCellIndices g)" "onPerimeter (endCellIndices g)"
    and cells: "\<forall>i j. 0 \<le> i \<and> i < GRID_SIZE \<and> 0 \<le> j \<and> j < GRID_SIZE \<longrightarrow>
         (\<exists>c. gridLookup (grid g) i j = Some c
            \<and> cell_gridX c = i \<and> cell_gridZ c = j
            \<and> cell_type c \<in> {BLANK, SPEEDER, LAVA, MUD}
            \<and> cell_x c = (real_of_int i - real_of_int GRID_SIZE / 2 + 1 / 2) * CELL_UNIT_SIZE
            \<and> cell_z c = (real_of_int j - real_of_int GRID_SIZE / 2 + 1 / 2) * CELL_UNIT_SIZE
            \<and> ((i = ix (startCellIndices g) \<and> j = iz (startCellIndices g))
                 \<or> (i = ix (endCellIndices g) \<and> j = iz (endCellIndices g))
               \<longrightarrow> cell_type c = BLANK))"
    by blast
  from cells g(3) have "\<exists>c. gridLookup (grid g) (ix (endCellIndices g)) (iz (endCellIndices g))
      = Some c \<and> cell_type c = BLANK"
    unfolding inGrid_def by blast
  with g halfSource_valid d show ?thesis by blast
qed

text \<open>
  C5 as stated, for every outcome of the random source, fails for the source that gives 0
  at every call: each pass of the resampling loop gives the start cell \<open>(0, 0)\<close> again,
  and \<^verbatim>\<open>initializeGameData\<close> does not return.
\<close>

theorem initializeGameData_counterexample:
  "validSource zeroSource \<and> initializeGameData easy zeroSource = None"
  by (simp add: zeroSource_valid initializeGameData_def first_draw zeroSource_draw
      zeroSource_never_returns)

text \<open>
  C7, as amended. Under a uniform source, one pass of the perimeter sampler gives each
  of the four corners with probability \<open>2 / (4 * GRID_SIZE)\<close>, each other perimeter cell
  with probability \<open>1 / (4 * GRID_SIZE)\<close>, and no other cell: a corner lies on two
  edges. The start cell is the cell of the first pass (lemma \<open>first_draw\<close>).
\<close>

theorem perimeterProbability_value:
  "perimeterProbability c
     = (if isCorner c then 2 / real_of_int (4 * GRID_SIZE)
        else if onPerimeter c \<and> inGrid c then 1 / real_of_int (4 * GRID_SIZE)
        else 0)"
proof -
  have pairs: "real (length edgeOffsetPairs) = real_of_int (4 * GRID_SIZE)"
    by (simp add: length_edgeOffsetPairs GRID_SIZE_def)
  have count: "length (filter (\<lambda>(edge, k). edgeCell edge k = c) edgeOffsetPairs)
      = (if isCorner c then 2 else if onPerimeter c \<and> inGrid c then 1 else 0)"
  proof (cases "isCorner c")
    case True
    then show ?thesis
      unfolding perimeter_count_edges by (auto simp: isCorner_def GRID_SIZE_def)
  next
    case corner: False
    show ?thesis
    proof (cases "onPerimeter c \<and> inGrid c")
      case True
      with corner show ?thesis
        unfolding perimeter_count_edges
        by (auto simp: isCorner_def onPerimeter_def inGrid_def GRID_SIZE_def)
    next
      case False
      with corner show ?thesis
        unfolding perimeter_count_edges
        by (auto simp: isCorner_def onPerimeter_def inGrid_def GRID_SIZE_def)
    qed
  qed
  show ?thesis
    unfolding perimeterProbability_def pairs count by simp
qed

text \<open>A corner, another perimeter cell and an inner cell.\<close>

theorem perimeterProbability_value_witness:
  "perimeterProbability \<lparr>ix = 24, iz = 24\<rparr> = 2 / 100
   \<and> perimeterProbability \<lparr>ix = 7, iz = 24\<rparr> = 1 / 100
   \<and> perimeterProbability \<lparr>ix = 7, iz = 7\<rparr> = 0"
  using perimeterProbability_value[of "\<lparr>ix = 24, iz = 24\<rparr>"]
    perimeterProbability_value[of "\<lparr>ix = 7, iz = 24\<rparr>"]
    perimeterProbability_value[of "\<lparr>ix = 7, iz = 7\<rparr>"]
  by (simp add: isCorner_def onPerimeter_def inGrid_def GRID_SIZE_def)

text \<open>
  C7 as stated, equal probability for every perimeter cell, fails for the corner
  \<open>(0, 0)\<close> and its neighbour \<open>(1, 0)\<close>.
\<close>

theorem perimeter_uniform_counterexample:
  "onPerimeter \<lparr>ix = 0, iz = 0\<rparr> \<and> onPerimeter \<lparr>ix = 1, iz = 0\<rparr>
   \<and> perimeterProbability \<lparr>ix = 0, iz = 0\<rparr> = 2 / 100
   \<and> perimeterProbability \<lparr>ix = 1, iz = 0\<rparr> = 1 / 100
   \<and> perimeterProbability \<lparr>ix = 0, iz = 0\<rparr> \<noteq> perimeterProbability \<lparr>ix = 1, iz = 0\<rparr>"
  by (simp add: perimeterProbability_def perimeter_count_edges length_edgeOffsetPairs
      onPerimeter_def GRID_SIZE_def)

subsection \<open>Reset\<close>

text \<open>
  C6. With a snapshot, \<^verbatim>\<open>resetGame\<close> returns a state that holds the grid, the trail
  (as a set; as a list too when the stored array has no duplicates), the position, health
  and moves of the player, the time left, the difficulty, the view and the start and end
  cells of the snapshot, with the three flags false whatever the snapshot stores in its
  own. Without a snapshot, whenever \<^verbatim>\<open>initializeGameData\<close> returns, \<^verbatim>\<open>resetGame\<close>
  returns a state with the generated grid, health 100, moves 200, 60 seconds, an empty
  trail and the three flags false; it fails to return only when the generation does.
\<close>

theorem resetGame_restores:
  "(\<exists>s'. resetGame d (Some st) rnd s = Some s'
      \<and> gridData s' = gs_gridData st
      \<and> visitedCellTrail s' = newSet (gs_visitedCellTrail st)
      \<and> set (visitedCellTrail s') = set (gs_visitedCellTrail st)
      \<and> (distinct (gs_visitedCellTrail st) \<longrightarrow> visitedCellTrail s' = gs_visitedCellTrail st)
      \<and> currentGridIndices s' = \<lparr>ix = gridX (gs_player st), iz = gridZ (gs_player st)\<rparr>
      \<and> playerStartPos s' = (worldX (gs_player st), PLAYER_Y_POSITION, worldZ (gs_player st))
      \<and> playerHealth s' = health (gs_player st) \<and> playerMoves s' = moves (gs_player st)
      \<and> timeLeft s' = game_timeLeft (gs_game st) \<and> difficulty s' = gs_difficulty st
      \<and> isFpsView s' = game_isFpsView (gs_game st)
      \<and> actualStartCellIndices s' = game_startCell (gs_game st)
      \<and> endCell s' = game_endCell (gs_game st)
      \<and> \<not> gameOver s' \<and> \<not> hasWon s' \<and> \<not> timerGameOver s' \<and> outcome s' = Ongoing)
   \<and> (\<forall>g. initializeGameData d rnd = Some g \<longrightarrow>
        (\<exists>s'. resetGame d None rnd s = Some s'
           \<and> gridData s' = grid g
           \<and> currentGridIndices s' = startCellIndices g
           \<and> actualStartCellIndices s' = startCellIndices g
           \<and> endCell s' = endCellIndices g
           \<and> playerHealth s' = 100 \<and> playerMoves s' = 200 \<and> timeLeft s' = 60
           \<and> visitedCellTrail s' = []
           \<and> \<not> gameOver s' \<and> \<not> hasWon s' \<and> \<not> timerGameOver s' \<and> outcome s' = Ongoing))
   \<and> (initializeGameData d rnd = None \<longrightarrow> resetGame d None rnd s = None)"
proof (intro conjI allI impI)
  from resetGame_loaded[of d st rnd s] obtain t where
    t: "resetGame d (Some st) rnd s = Some (resetFlags t)"
      "gridData t = gs_gridData st"
      "visitedCellTrail t = newSet (gs_visitedCellTrail st)"
      "currentGridIndices t = \<lparr>ix = gridX (gs_player st), iz = gridZ (gs_player st)\<rparr>"
      "playerStartPos t = (worldX (gs_player st), PLAYER_Y_POSITION, worldZ (gs_player st))"
      "playerHealth t = health (gs_player st)" "playerMoves t = moves (gs_player st)"
      "timeLeft t = game_timeLeft (gs_game st)" "difficulty t = gs_difficulty st"
      "isFpsView t = game_isFpsView (gs_game st)"
      "actualStartCellIndices t = game_startCell (gs_game st)"
      "endCell t = game_endCell (gs_game st)"
    by blast
  show "\<exists>s'. resetGame d (Some st) rnd s = Some s'
      \<and> gridData s' = gs_gridData st
      \<and> visitedCellTrail s' = newSet (gs_visitedCellTrail st)
      \<and> set (visitedCellTrail s') = set (gs_visitedCellTrail st)
      \<and> (distinct (gs_visitedCellTrail st) \<longrightarrow> visitedCellTrail s' = gs_visitedCellTrail st)
      \<and> currentGridIndices s' = \<lparr>ix = gridX (gs_player st), iz = gridZ (gs_player st)\<rparr>
      \<and> playerStartPos s' = (worldX (gs_player st), PLAYER_Y_POSITION, worldZ (gs_player st))
      \<and> playerHealth s' = health (gs_player st) \<and> playerMoves s' = moves (gs_player st)
      \<and> timeLeft s' = game_timeLeft (gs_game st) \<and> difficulty s' = gs_difficulty st
      \<and> isFpsView s' = game_isFpsView (gs_game st)
      \<and> actualStartCellIndices s' = game_startCell (gs_game st)
      \<and> endCell s' = game_endCell (gs_game st)
      \<and> \<not> gameOver s' \<and> \<not> hasWon s' \<and> \<not> timerGameOver s' \<and> outcome s' = Ongoing"
    by (rule exI[of _ "resetFlags t"])
      (simp add: t resetFlags_fields outcome_def set_newSet newSet_distinct)
next
  fix g
  assume "initializeGameData d rnd = Some g"
  from resetGame_fresh[OF this, of s] obtain t where
    t: "resetGame d None rnd s = Some (resetFlags t)"
      "gridData t = grid g" "currentGridIndices t = startCellIndices g"
      "actualStartCellIndices t = startCellIndices g" "endCell t = endCellIndices g"
      "playerHealth t = INITIAL_PLAYER_HEALTH" "playerMoves t = INITIAL_PLAYER_MOVES"
      "timeLeft t = GAME_DURATION_SECONDS" "visitedCellTrail t = []"
    by blast
  show "\<exists>s'. resetGame d None rnd s = Some s'
           \<and> gridData s' = grid g
           \<and> currentGridIndices s' = startCellIndices g
           \<and> actualStartCellIndices s' = startCellIndices g
           \<and> endCell s' = endCellIndices g
           \<and> playerHealth s' = 100 \<and> playerMoves s' = 200 \<and> timeLeft s' = 60
           \<and> visitedCellTrail s' = []
           \<and> \<not> gameOver s' \<and> \<not> hasWon s' \<and> \<not> timerGameOver s' \<and> outcome s' = Ongoing"
    by (rule exI[of _ "resetFlags t"])
      (simp add: t resetFlags_fields outcome_def INITIAL_PLAYER_HEALTH_def
        INITIAL_PLAYER_MOVES_def GAME_DURATION_SECONDS_def)
next
  assume "initializeGameData d rnd = None"
  then show "resetGame d None rnd s = None"
    by (simp add: resetGame_def)
qed

text \<open>
  Resets of the timed-out example state: from the snapshot of a won game, and to a fresh
  grid drawn from \<open>halfSource\<close>.
\<close>

theorem resetGame_restores_witness:
  "game_hasWon (gs_game wonSnapshot) \<and> game_isOver (gs_game wonSnapshot)
   \<and> terminal timedOut
   \<and> initializeGameData easy halfSource = Some halfData
   \<and> (\<exists>s'. resetGame easy (Some wonSnapshot) halfSource timedOut = Some s'
         \<and> playerHealth s' = 45 \<and> playerMoves s' = 120 \<and> timeLeft s' = 30
         \<and> visitedCellTrail s' = [''1,3'', ''2,3''] \<and> outcome s' = Ongoing)
   \<and> (\<exists>s'. resetGame easy None halfSource timedOut = Some s'
         \<and> gridData s' = grid halfData
         \<and> playerHealth s' = 100 \<and> playerMoves s' = 200 \<and> timeLeft s' = 60
         \<and> visitedCellTrail s' = [] \<and> outcome s' = Ongoing)"
proof -
  have snap: "game_hasWon (gs_game wonSnapshot)" "game_isOver (gs_game wonSnapshot)"
    "health (gs_player wonSnapshot) = 45" "moves (gs_player wonSnapshot) = 120"
    "game_timeLeft (gs_game wonSnapshot) = 30"
    "gs_visitedCellTrail wonSnapshot = [''1,3'', ''2,3'']"
    by (simp_all add: wonSnapshot_def)
  have d: "distinct (gs_visitedCellTrail wonSnapshot)"
    by (simp add: snap)
  have t: "terminal timedOut"
    by (simp add: terminal_def timedOut_fields)
  note r = resetGame_restores[of easy wonSnapshot halfSource timedOut]
  from r obtain s1 where s1: "resetGame easy (Some wonSnapshot) halfSource timedOut = Some s1"
    "distinct (gs_visitedCellTrail wonSnapshot)
       \<longrightarrow> visitedCellTrail s1 = gs_visitedCellTrail wonSnapshot"
    "playerHealth s1 = health (gs_player wonSnapshot)"
    "playerMoves s1 = moves (gs_player wonSnapshot)"
    "timeLeft s1 = game_timeLeft (gs_game wonSnapshot)" "outcome s1 = Ongoing"
    by blast
  from r halfSource_data obtain s2 where s2: "resetGame easy None halfSource timedOut = Some s2"
    "gridData s2 = grid halfData" "playerHealth s2 = 100" "playerMoves s2 = 200"
    "timeLeft s2 = 60" "visitedCellTrail s2 = []" "outcome s2 = Ongoing"
    by blast
  from s1 d have "\<exists>s'. resetGame easy (Some wonSnapshot) halfSource timedOut = Some s'
         \<and> playerHealth s' = 45 \<and> playerMoves s' = 120 \<and> timeLeft s' = 30
         \<and> visitedCellTrail s' = [''1,3'', ''2,3''] \<and> outcome s' = Ongoing"
    by (simp add: snap)
  moreover from s2 have "\<exists>s'. resetGame easy None halfSource timedOut = Some s'
         \<and> gridData s' = grid halfData
         \<and> playerHealth s' = 100 \<and> playerMoves s' = 200 \<and> timeLeft s' = 60
         \<and> visitedCellTrail s' = [] \<and> outcome s' = Ongoing"
    by simp
  ultimately show ?thesis
    using snap(1,2) t halfSource_data by blast
qed

subsection \<open>Position samples\<close>

text \<open>
  C3. A position sample while the game is ongoing: each coordinate is converted by
  \<open>round (w / CELL_UNIT_SIZE + GRID_SIZE / 2 - 1/2)\<close> and clamped to
  \<open>[0, GRID_SIZE - 1]\<close>. When the clamped indices are those of the player, nothing
  changes. Otherwise, when the new cell \<open>c\<close> is not the end cell, the deltas of its type
  are added to health and moves, without clamping, and the game is lost by health when
  the new health is at most 0, else lost by moves when the new moves are at most 0, else
  still ongoing. From health 100 and moves 200, a Lava cell gives 50 and 190.
\<close>

theorem onPositionSample_step:
  assumes "outcome s = Ongoing"
    and "cx = clampIndex (toGridIndex px)" and "cz = clampIndex (toGridIndex pz)"
  shows "0 \<le> cx \<and> cx \<le> GRID_SIZE - 1 \<and> 0 \<le> cz \<and> cz \<le> GRID_SIZE - 1 \<and>
    (cx = ix (currentGridIndices s) \<and> cz = iz (currentGridIndices s)
       \<longrightarrow> onPositionSample px pz s = s) \<and>
    ((cx \<noteq> ix (currentGridIndices s) \<or> cz \<noteq> iz (currentGridIndices s))
       \<and> \<not> (cx = ix (endCell s) \<and> cz = iz (endCell s))
       \<and> gridLookup (gridData s) cx cz = Some c
       \<longrightarrow> currentGridIndices (onPositionSample px pz s) = \<lparr>ix = cx, iz = cz\<rparr>
         \<and> playerHealth (onPositionSample px pz s)
             = playerHealth s + healthChange (CELL_EFFECTS (cell_type c))
         \<and> playerMoves (onPositionSample px pz s)
             = playerMoves s + movesChange (CELL_EFFECTS (cell_type c))
         \<and> outcome (onPositionSample px pz s)
             = (if playerHealth (onPositionSample px pz s) \<le> 0 then LostHealth
                else if playerMoves (onPositionSample px pz s) \<le> 0 then LostMoves
                else Ongoing)
         \<and> (playerHealth s = 100 \<and> playerMoves s = 200 \<and> cell_type c = LAVA
              \<longrightarrow> playerHealth (onPositionSample px pz s) = 50
                \<and> playerMoves (onPositionSample px pz s) = 190))"
proof -
  from assms(1) have flags: "\<not> gameOver s" "\<not> hasWon s" "\<not> timerGameOver s"
    by (simp_all add: outcome_Ongoing_iff)
  have range: "0 \<le> cx \<and> cx \<le> GRID_SIZE - 1 \<and> 0 \<le> cz \<and> cz \<le> GRID_SIZE - 1"
    using clampIndex_range assms(2,3) by simp
  have same: "onPositionSample px pz s = s"
    if "cx = ix (currentGridIndices s) \<and> cz = iz (currentGridIndices s)"
    using that assms(2,3) by (simp add: onPositionSample_def gameTick_same)
  have moved: "currentGridIndices (onPositionSample px pz s) = \<lparr>ix = cx, iz = cz\<rparr>
         \<and> playerHealth (onPositionSample px pz s)
             = playerHealth s + healthChange (CELL_EFFECTS (cell_type c))
         \<and> playerMoves (onPositionSample px pz s)
             = playerMoves s + movesChange (CELL_EFFECTS (cell_type c))
         \<and> outcome (onPositionSample px pz s)
             = (if playerHealth (onPositionSample px pz s) \<le> 0 then LostHealth
                else if playerMoves (onPositionSample px pz s) \<le> 0 then LostMoves
                else Ongoing)"
    if m: "cx \<noteq> ix (currentGridIndices s) \<or> cz \<noteq> iz (currentGridIndices s)"
      and e: "\<not> (cx = ix (endCell s) \<and> cz = iz (endCell s))"
      and c: "gridLookup (gridData s) cx cz = Some c"
  proof -
    have "onPositionSample px pz s =
        enterCell s cx cz ((recordTrail s)\<lparr>currentGridIndices := \<lparr>ix = cx, iz = cz\<rparr>\<rparr>)"
      using m flags assms(2,3) by (simp add: onPositionSample_def gameTick_moved)
    then show ?thesis
      using flags by (simp add: enterCell_effect[OF c e flags] Let_def outcome_def recordTrail_fields)
  qed
  have lava: "playerHealth (onPositionSample px pz s) = 50 \<and> playerMoves (onPositionSample px pz s) = 190"
    if "cx \<noteq> ix (currentGridIndices s) \<or> cz \<noteq> iz (currentGridIndices s)"
      "\<not> (cx = ix (endCell s) \<and> cz = iz (endCell s))"
      "gridLookup (gridData s) cx cz = Some c"
      "playerHealth s = 100 \<and> playerMoves s = 200 \<and> cell_type c = LAVA"
    using moved[OF that(1-3)] that(4) by simp
  show ?thesis using range same moved lava by blast
qed

text \<open>
  A step from \<open>(5, 5)\<close> onto the Lava cell at \<open>(5, 6)\<close> of the example grid,
  with health 100 and with health 10.
\<close>

theorem onPositionSample_step_witness:
  "outcome exampleEngine = Ongoing
   \<and> 5 = clampIndex (toGridIndex (- 7)) \<and> 6 = clampIndex (toGridIndex (- 6))
   \<and> cell_type (exampleCell 5 6) = LAVA
   \<and> currentGridIndices (onPositionSample (- 7) (- 6) exampleEngine) = \<lparr>ix = 5, iz = 6\<rparr>
   \<and> playerHealth (onPositionSample (- 7) (- 6) exampleEngine) = 50
   \<and> playerMoves (onPositionSample (- 7) (- 6) exampleEngine) = 190
   \<and> outcome (onPositionSample (- 7) (- 6) exampleEngine) = Ongoing
   \<and> playerHealth (onPositionSample (- 7) (- 6) weakEngine) = - 40
   \<and> outcome (onPositionSample (- 7) (- 6) weakEngine) = LostHealth"
proof -
  have h1: "outcome exampleEngine = Ongoing"
    by (simp add: outcome_def exampleEngine_fields)
  have h2: "5 = clampIndex (toGridIndex (- 7))" and h3: "6 = clampIndex (toGridIndex (- 6))"
    by (simp_all add: toGridIndex_examples)
  have c: "gridLookup (gridData exampleEngine) 5 6 = Some (exampleCell 5 6)"
    by (simp add: exampleEngine_fields gridLookup_exampleGrid GRID_SIZE_def)
  have t: "cell_type (exampleCell 5 6) = LAVA"
    by (simp add: exampleCell_def)
  have f: "gameOver weakEngine = False" "hasWon weakEngine = False"
    "timerGameOver weakEngine = False" "gridData weakEngine = exampleGrid"
    "currentGridIndices weakEngine = \<lparr>ix = 5, iz = 5\<rparr>"
    "endCell weakEngine = \<lparr>ix = 24, iz = 3\<rparr>"
    "playerHealth weakEngine = 10" "playerMoves weakEngine = 200"
    by (simp_all add: weakEngine_def exampleEngine_fields)
  have w1: "outcome weakEngine = Ongoing"
    by (simp add: outcome_def f)
  have wc: "gridLookup (gridData weakEngine) 5 6 = Some (exampleCell 5 6)"
    by (simp add: f gridLookup_exampleGrid GRID_SIZE_def)
  have strong: "currentGridIndices (onPositionSample (- 7) (- 6) exampleEngine) = \<lparr>ix = 5, iz = 6\<rparr>
      \<and> playerHealth (onPositionSample (- 7) (- 6) exampleEngine) = 50
      \<and> playerMoves (onPositionSample (- 7) (- 6) exampleEngine) = 190
      \<and> outcome (onPositionSample (- 7) (- 6) exampleEngine) = Ongoing"
    using onPositionSample_step[OF h1 h2 h3, of "exampleCell 5 6"] c t
    by (simp add: exampleEngine_fields)
  have weak: "playerHealth (onPositionSample (- 7) (- 6) weakEngine) = - 40
      \<and> outcome (onPositionSample (- 7) (- 6) weakEngine) = LostHealth"
    using onPositionSample_step[OF w1 h2 h3, of "exampleCell 5 6"] wc t
    by (simp add: f)
  from strong weak h1 h2 h3 t show ?thesis by blast
qed




subsection \<open>Terminal states\<close>

text \<open>
  C2. In a state that a session has reached and in which \<^verbatim>\<open>gameOver\<close>, \<^verbatim>\<open>hasWon\<close> or
  \<^verbatim>\<open>timerGameOver\<close> is set, every sequence of position samples and clock ticks leaves
  the whole state as it is: health, moves, \<^verbatim>\<open>timeLeft\<close> and the flags. After a timeout
  a sample on the end cell does not win.
\<close>

theorem terminal_idempotent:
  assumes "reachable s" and "terminal s"
  shows "run evs s = s
    \<and> (outcome s = LostTimeout \<longrightarrow> \<not> hasWon (onPositionSample px pz s)
          \<and> outcome (onPositionSample px pz s) = LostTimeout)"
proof -
  from flags_invariant[OF assms(1)] assms(2) have g: "gameOver s \<or> hasWon s"
    by (auto simp: terminal_def)
  have "run evs s = s"
    by (induction evs) (simp_all add: terminal_step[OF g])
  moreover have "onPositionSample px pz s = s"
    using g by (simp add: onPositionSample_def)
  ultimately show ?thesis by (auto simp: outcome_def)
qed

text \<open>
  A session that resumes a snapshot with one second left and times out; the first of
  the later samples is on the end cell.
\<close>

theorem terminal_idempotent_witness:
  "reachable timedOut \<and> terminal timedOut \<and> outcome timedOut = LostTimeout
   \<and> run [PositionSample 12 (- 9), ClockTick, PositionSample (- 7) (- 6)] timedOut = timedOut
   \<and> \<not> hasWon (onPositionSample 12 (- 9) timedOut)
   \<and> outcome (onPositionSample 12 (- 9) timedOut) = LostTimeout"
proof -
  have "reachable restoredLastSecond"
    by (rule reachable.reset[OF reachable.init restoredLastSecond_fields(1)])
  then have "reachable (step ClockTick restoredLastSecond)"
    by (rule reachable.event)
  then have r: "reachable timedOut"
    by (simp add: timedOut_def)
  have t: "terminal timedOut"
    by (simp add: terminal_def timedOut_fields)
  have o: "outcome timedOut = LostTimeout"
    by (simp add: outcome_def timedOut_fields)
  from terminal_idempotent[OF r t,
      of "[PositionSample 12 (- 9), ClockTick, PositionSample (- 7) (- 6)]" 12 "- 9"] r t o
  show ?thesis by blast
qed

subsection \<open>The clock\<close>



subsection \<open>Saving and loading\<close>

text \<open>
  C8, as amended. \<^verbatim>\<open>handleLoadGame\<close> checks the player name only. For a stored text
  that parses to a document: when the name of the document is absent or is not the name
  asked for, the result is \<^verbatim>\<open>null\<close>; otherwise the document is returned, with the empty
  array in place of an absent trail and with every other field as it is in the
  document, absent if it is absent there.
\<close>

theorem handleLoadGame_checks_name_only:
  assumes "store (storageKey pName) = Some savedGameString"
    and "parse savedGameString = Some loadedData"
  shows "(doc_playerName loadedData \<noteq> Some pName \<longrightarrow> handleLoadGame parse pName store = None)
    \<and> (doc_playerName loadedData = Some pName \<longrightarrow>
         (\<exists>r. handleLoadGame parse pName store = Some r
            \<and> doc_playerName r = Some pName
            \<and> doc_visitedCellTrail r
                 = Some (case doc_visitedCellTrail loadedData of Some trail \<Rightarrow> trail | None \<Rightarrow> [])
            \<and> doc_difficulty r = doc_difficulty loadedData
            \<and> doc_player r = doc_player loadedData
            \<and> doc_game r = doc_game loadedData
            \<and> doc_gridData r = doc_gridData loadedData))"
  using assms by (simp add: handleLoadGame_def)

text \<open>The stored document without grid and trail, asked for by its own name and by another.\<close>

theorem handleLoadGame_checks_name_only_witness:
  "incompleteStore (storageKey ''ann'') = Some incompleteDocument
   \<and> Some incompleteDocument = Some incompleteDocument
   \<and> doc_gridData incompleteDocument = None
   \<and> handleLoadGame Some ''bob'' (incompleteStore(storageKey ''bob'' \<mapsto> incompleteDocument)) = None
   \<and> (\<exists>r. handleLoadGame Some ''ann'' incompleteStore = Some r
         \<and> doc_visitedCellTrail r = Some [] \<and> doc_gridData r = None)"
proof -
  have s: "incompleteStore (storageKey ''ann'') = Some incompleteDocument"
    by (simp add: incompleteStore_def)
  have s': "(incompleteStore(storageKey ''bob'' \<mapsto> incompleteDocument)) (storageKey ''bob'')
      = Some incompleteDocument"
    by simp
  have p: "Some incompleteDocument = Some incompleteDocument" ..
  have f: "doc_playerName incompleteDocument = Some ''ann''"
    "doc_gridData incompleteDocument = None" "doc_visitedCellTrail incompleteDocument = None"
    by (simp_all add: incompleteDocument_def toDocument_def wonSnapshot_def)
  from handleLoadGame_checks_name_only[where parse = Some and pName = "''ann''"
      and store = incompleteStore and savedGameString = incompleteDocument
      and loadedData = incompleteDocument, OF s p]
    handleLoadGame_checks_name_only[where parse = Some and pName = "''bob''"
      and store = "incompleteStore(storageKey ''bob'' \<mapsto> incompleteDocument)"
      and savedGameString = incompleteDocument and loadedData = incompleteDocument, OF s' p]
    s f
  show ?thesis by simp blast
qed

text \<open>
  C8 as stated, a validation error for a missing field and no default, fails for the
  document without grid and trail: it is loaded, with the empty array as its trail and
  still without grid.
\<close>

theorem missing_fields_counterexample:
  "doc_gridData incompleteDocument = None \<and> doc_visitedCellTrail incompleteDocument = None
   \<and> handleLoadGame Some ''ann'' incompleteStore = Some loadedIncomplete
   \<and> doc_gridData loadedIncomplete = None \<and> doc_visitedCellTrail loadedIncomplete = Some []"
  by (simp add: handleLoadGame_def incompleteStore_def loadedIncomplete_def incompleteDocument_def
      toDocument_def wonSnapshot_def)



end
